theory Spec2Isabelle
  imports Complex_Main
begin

section \<open>Conventions of the embedding\<close>

text \<open>
  The development embeds \<^verbatim>\<open>src/biota/calibration.py\<close>.

  \<^item> The module is Python 2 code: \<^verbatim>\<open>window_size/2\<close> is used as a slice index, which only
    an integer division can produce, so \<^verbatim>\<open>/\<close> between two Python ints is floor division.
  \<^item> A raised exception is a value \<open>Inl e\<close> of a sum type; \<^verbatim>\<open>assert\<close> raises
    \<open>AssertionError\<close> (the spec's InvalidArgument), a missing tile raises \<open>IOError\<close>
    (the spec's NotFound).
  \<^item> A float is a double: not-a-number, an infinity, or a finite value, which is a real
    number. An operation on finite values returns its exact result rounded to a double.
    The rounding is a parameter of every definition that computes with floats, so that a
    theorem holds of the arithmetic of the machine and not only of exact arithmetic; what a
    theorem needs of the rounding is among its hypotheses. The special values follow
    IEEE 754. A negative zero is not told apart from zero.
  \<^item> A 2D numpy array is its shape together with its element function; only indices inside
    the shape are meaningful.
  \<^item> What the module takes from outside is a parameter: the file system and the clock, the
    transformation of coordinates of a shapefile, and the drawing operations of the
    imaging library.
\<close>

datatype error =
  AssertionError | IOError | ValueError | ZeroDivisionError | AttributeError
  | TypeError | IndexError | MaskError | OverflowError

record 'a array2 =
  shape0 :: nat
  shape1 :: nat
  item :: "nat \<Rightarrow> nat \<Rightarrow> 'a"

definition bind_err :: "error + 'a \<Rightarrow> ('a \<Rightarrow> error + 'b) \<Rightarrow> error + 'b" where
  "bind_err r f = (case r of Inl e \<Rightarrow> Inl e | Inr v \<Rightarrow> f v)"

section \<open>Floats\<close>

datatype fl = NaN | PInf | NInf | Fin real

text \<open>
  The arithmetic of the machine: \<open>rnd\<close> rounds the exact result of an addition,
  subtraction, multiplication, division or square root, and the value of a decimal
  literal or of an integer, to a double; \<open>libm\<close> does so for the results of the
  exponential, the logarithm and the power function, which the mathematical library does
  not round in the same way. Both may overflow to an infinity.
\<close>

record arith =
  rnd :: "real \<Rightarrow> fl"
  libm :: "real \<Rightarrow> fl"

definition exact :: arith where
  \<comment> \<open>arithmetic without rounding, used to evaluate the definitions on inputs where the
      machine computes exactly\<close>
  "exact = \<lparr>rnd = Fin, libm = Fin\<rparr>"

fun fneg :: "fl \<Rightarrow> fl" where
  "fneg (Fin a) = Fin (- a)"
| "fneg PInf = NInf"
| "fneg NInf = PInf"
| "fneg NaN = NaN"

fun fadd :: "arith \<Rightarrow> fl \<Rightarrow> fl \<Rightarrow> fl" where
  "fadd A (Fin a) (Fin b) = rnd A (a + b)"
| "fadd A NaN y = NaN"
| "fadd A x NaN = NaN"
| "fadd A PInf NInf = NaN"
| "fadd A NInf PInf = NaN"
| "fadd A PInf y = PInf"
| "fadd A x PInf = PInf"
| "fadd A NInf y = NInf"
| "fadd A x NInf = NInf"

definition fsub :: "arith \<Rightarrow> fl \<Rightarrow> fl \<Rightarrow> fl" where
  "fsub A x y = fadd A x (fneg y)"

fun fmul :: "arith \<Rightarrow> fl \<Rightarrow> fl \<Rightarrow> fl" where
  "fmul A (Fin a) (Fin b) = rnd A (a * b)"
| "fmul A NaN y = NaN"
| "fmul A x NaN = NaN"
| "fmul A PInf (Fin b) = (if b = 0 then NaN else if 0 < b then PInf else NInf)"
| "fmul A NInf (Fin b) = (if b = 0 then NaN else if 0 < b then NInf else PInf)"
| "fmul A (Fin a) PInf = (if a = 0 then NaN else if 0 < a then PInf else NInf)"
| "fmul A (Fin a) NInf = (if a = 0 then NaN else if 0 < a then NInf else PInf)"
| "fmul A PInf PInf = PInf"
| "fmul A PInf NInf = NInf"
| "fmul A NInf PInf = NInf"
| "fmul A NInf NInf = PInf"

text \<open>
  The division of numpy: a division by zero gives NaN or an infinity. The sign of that
  infinity is taken from the dividend alone; the only quotient of arrays in the module
  (\<^verbatim>\<open>ci\<close>, line 76) has its non-finite entries replaced by 0 on the next line.
\<close>

fun fdiv :: "arith \<Rightarrow> fl \<Rightarrow> fl \<Rightarrow> fl" where
  "fdiv A (Fin a) (Fin b) =
     (if b = 0 then (if a = 0 then NaN else if 0 < a then PInf else NInf)
      else rnd A (a / b))"
| "fdiv A NaN y = NaN"
| "fdiv A x NaN = NaN"
| "fdiv A (Fin a) y = Fin 0"
| "fdiv A PInf (Fin b) = (if 0 \<le> b then PInf else NInf)"
| "fdiv A NInf (Fin b) = (if 0 \<le> b then NInf else PInf)"
| "fdiv A x y = NaN"

fun fsqrt :: "arith \<Rightarrow> fl \<Rightarrow> fl" where
  "fsqrt A (Fin a) = (if a < 0 then NaN else rnd A (sqrt a))"
| "fsqrt A PInf = PInf"
| "fsqrt A NInf = NaN"
| "fsqrt A NaN = NaN"

fun fexp :: "arith \<Rightarrow> fl \<Rightarrow> fl" where
  "fexp A (Fin a) = libm A (exp a)"
| "fexp A PInf = PInf"
| "fexp A NInf = Fin 0"
| "fexp A NaN = NaN"

fun isfinite :: "fl \<Rightarrow> bool" where
  "isfinite (Fin a) = True"
| "isfinite x = False"

fun isnan :: "fl \<Rightarrow> bool" where
  "isnan NaN = True"
| "isnan x = False"

fun fle :: "fl \<Rightarrow> fl \<Rightarrow> bool" where
  "fle (Fin a) (Fin b) = (a \<le> b)"
| "fle NaN y = False"
| "fle x NaN = False"
| "fle NInf y = True"
| "fle x PInf = True"
| "fle x y = False"

fun flt :: "fl \<Rightarrow> fl \<Rightarrow> bool" where
  "flt (Fin a) (Fin b) = (a < b)"
| "flt NaN y = False"
| "flt x NaN = False"
| "flt PInf y = False"
| "flt x NInf = False"
| "flt x y = True"

definition fge :: "fl \<Rightarrow> fl \<Rightarrow> bool" where
  "fge a b = fle b a"

definition fgt :: "fl \<Rightarrow> fl \<Rightarrow> bool" where
  "fgt a b = flt b a"

definition float_of_int :: "arith \<Rightarrow> int \<Rightarrow> fl" where
  \<comment> \<open>the conversion of a Python int in an operation with a float\<close>
  "float_of_int A n = rnd A (of_int n)"

section \<open>Python builtins used by the module\<close>

fun py_int :: "fl \<Rightarrow> error + int" where
  \<comment> \<open>\<^verbatim>\<open>int(x)\<close> on a float: the fractional part is dropped (truncation toward zero);
      NaN and the infinities have no integer\<close>
  "py_int (Fin x) = Inr (if 0 \<le> x then \<lfloor>x\<rfloor> else \<lceil>x\<rceil>)"
| "py_int NaN = Inl ValueError"
| "py_int x = Inl OverflowError"

fun py_round :: "fl \<Rightarrow> fl" where
  \<comment> \<open>Python 2 \<^verbatim>\<open>round(x)\<close>: the nearest integer as a float, halves away from zero\<close>
  "py_round (Fin x) = Fin (if 0 \<le> x then of_int \<lfloor>x + 1 / 2\<rfloor> else of_int \<lceil>x - 1 / 2\<rceil>)"
| "py_round x = x"

definition py_div :: "arith \<Rightarrow> fl \<Rightarrow> fl \<Rightarrow> error + fl" where
  \<comment> \<open>\<^verbatim>\<open>x / y\<close> between Python floats: a zero divisor raises\<close>
  "py_div A x y = (if y = Fin 0 then Inl ZeroDivisionError else Inr (fdiv A x y))"

function str_nat :: "nat \<Rightarrow> string" where
  "str_nat n =
     (if n < 10 then [''0123456789'' ! n]
      else str_nat (n div 10) @ [''0123456789'' ! (n mod 10)])"
  by pat_completeness auto
termination
  by (relation "measure id") auto

declare str_nat.simps [simp del]

definition str_int :: "int \<Rightarrow> string" where
  \<comment> \<open>\<^verbatim>\<open>str(i)\<close> on an int.\<close>
  "str_int i = (if i < 0 then CHR ''-'' # str_nat (nat (- i)) else str_nat (nat i))"

definition zfill :: "string \<Rightarrow> nat \<Rightarrow> string" where
  \<comment> \<open>\<^verbatim>\<open>s.zfill(w)\<close>; a sign, if any, stays in front of the padding.\<close>
  "zfill s w =
     (case s of
        c # rest \<Rightarrow>
          (if c = CHR ''-'' \<or> c = CHR ''+''
           then c # replicate (w - length s) CHR ''0'' @ rest
           else replicate (w - length s) CHR ''0'' @ s)
      | [] \<Rightarrow> replicate w CHR ''0'')"

definition rstrip :: "char \<Rightarrow> string \<Rightarrow> string" where
  \<comment> \<open>\<^verbatim>\<open>s.rstrip(c)\<close> for a single character.\<close>
  "rstrip c s = rev (dropWhile (\<lambda>d. d = c) (rev s))"

definition last2 :: "string \<Rightarrow> string" where
  \<comment> \<open>\<^verbatim>\<open>s[-2:]\<close>\<close>
  "last2 s = drop (length s - 2) s"

section \<open>Coordinate mapping\<close>

text \<open>A GDAL geomatrix is a 6-tuple of floats; the fields are named after their index.\<close>

record geotransform =
  gt0 :: fl
  gt1 :: fl
  gt2 :: fl
  gt3 :: fl
  gt4 :: fl
  gt5 :: fl

definition world2Pixel ::
  "arith \<Rightarrow> geotransform \<Rightarrow> fl \<Rightarrow> fl \<Rightarrow> fl \<Rightarrow> error + (int \<times> int)" where
  \<comment> \<open>\<^verbatim>\<open>_world2Pixel(geo_t, x, y, buffer_size)\<close>\<close>
  "world2Pixel A geo_t x y buffer_size =
     (let ulX = fsub A (gt0 geo_t) buffer_size;
          ulY = fadd A (gt3 geo_t) buffer_size;
          xDist = gt1 geo_t;
          yDist = gt5 geo_t
      in bind_err (py_div A (fsub A x ulX) xDist) (\<lambda>qx.
         bind_err (py_int qx) (\<lambda>pixel.
         bind_err (py_div A (fsub A y ulY) yDist) (\<lambda>qy.
         bind_err (py_int qy) (\<lambda>line.
           Inr (pixel, line))))))"

section \<open>The ALOS tile\<close>

text \<open>
  What \<^verbatim>\<open>gdal.Open(path)\<close> gives for a raster file: its geomatrix, projection, size and
  the single band read by \<^verbatim>\<open>ReadAsArray()\<close>, an array of \<open>RasterYSize\<close> rows and
  \<open>RasterXSize\<close> columns.
\<close>

record raster =
  GeoTransform :: geotransform
  Projection :: string
  RasterXSize :: nat
  RasterYSize :: nat
  band :: "int array2"

text \<open>
  The environment of a call: the calendar year of \<^verbatim>\<open>dt.datetime.now()\<close> and the file
  system (\<^verbatim>\<open>os.path.isfile\<close> holds of the paths in the domain; \<^verbatim>\<open>gdal.Open\<close> of any
  other path returns \<^verbatim>\<open>None\<close>, whose attributes do not exist).
\<close>

record env =
  now_year :: int
  files :: "string \<rightharpoonup> raster"

record ALOS =
  lat :: int
  lon :: int
  year :: int
  hem_NS :: string
  hem_EW :: string
  satellite :: string
  dataloc :: string
  directory :: string
  HH_path :: string
  HV_path :: string
  mask_path :: string
  date_path :: string
  geo_t :: geotransform
  proj :: string
  xSize :: nat
  ySize :: nat
  mask :: "bool array2"

definition getSatellite :: "int \<Rightarrow> string" where
  "getSatellite yr = (if yr \<ge> 2015 then ''ALOS-2'' else ''ALOS-1'')"

definition name_pattern :: "string \<Rightarrow> string \<Rightarrow> string \<Rightarrow> string \<Rightarrow> string \<Rightarrow> string" where
  \<comment> \<open>\<^verbatim>\<open>'%s%s_%s_%s'\<close>, with \<^verbatim>\<open>'_F02DAR'\<close> appended for ALOS-2.\<close>
  "name_pattern sat a b c d =
     a @ b @ ''_'' @ c @ ''_'' @ d @ (if sat = ''ALOS-2'' then ''_F02DAR'' else '''')"

definition getDirectory :: "string \<Rightarrow> string \<Rightarrow> string \<Rightarrow> string \<Rightarrow> int \<Rightarrow> int \<Rightarrow> int \<Rightarrow> string" where
  "getDirectory dl sat ns ew la lo yr =
     (let lat_dir = ns @ zfill (str_int \<bar>la + (5 - la) mod 5\<bar>) 2;
          lon_dir = ew @ zfill (str_int \<bar>lo - (lo mod 5)\<bar>) 3
      in dl @ ''/'' @ name_pattern sat lat_dir lon_dir (last2 (str_int yr)) ''MOS'' @ ''/'')"

definition getFilename :: "string \<Rightarrow> string \<Rightarrow> string \<Rightarrow> int \<Rightarrow> int \<Rightarrow> int \<Rightarrow> string \<Rightarrow> string" where
  "getFilename sat ns ew la lo yr append_pattern =
     (let lat_file = ns @ zfill (str_int \<bar>la\<bar>) 2;
          lon_file = ew @ zfill (str_int \<bar>lo\<bar>) 3
      in name_pattern sat lat_file lon_file (last2 (str_int yr)) append_pattern)"

definition gdal_Open :: "env \<Rightarrow> string \<Rightarrow> error + raster" where
  "gdal_Open e path = (case files e path of None \<Rightarrow> Inl AttributeError | Some r \<Rightarrow> Inr r)"

definition map_array2 :: "('a \<Rightarrow> 'b) \<Rightarrow> 'a array2 \<Rightarrow> 'b array2" where
  \<comment> \<open>a unary ufunc, or an operation between an array and a scalar\<close>
  "map_array2 f a = \<lparr>shape0 = shape0 a, shape1 = shape1 a, item = (\<lambda>i j. f (item a i j))\<rparr>"

definition getMask :: "env \<Rightarrow> string \<Rightarrow> error + bool array2" where
  "getMask e path =
     bind_err (gdal_Open e path) (\<lambda>mask_ds. Inr (map_array2 (\<lambda>v. v \<noteq> 255) (band mask_ds)))"

definition ALOS_init :: "env \<Rightarrow> int \<Rightarrow> int \<Rightarrow> int \<Rightarrow> string \<Rightarrow> error + ALOS" where
  \<comment> \<open>\<^verbatim>\<open>ALOS.__init__\<close>; the arguments are Python ints, so the three type assertions pass.\<close>
  "ALOS_init e la lo yr dl =
     (if \<not> (real_of_int la < 90 \<or> real_of_int la > - 90) then Inl AssertionError
      else if \<not> (real_of_int lo < 180 \<or> real_of_int lo > - 180) then Inl AssertionError
      else if \<not> ((yr \<ge> 2007 \<and> yr \<le> 2010) \<or> (yr \<ge> 2015 \<and> yr \<le> now_year e))
        then Inl AssertionError
      else
        let ns = (if la < 0 then ''S'' else ''N'');
            ew = (if lo < 0 then ''W'' else ''E'');
            sat = getSatellite yr;
            dl' = rstrip CHR ''/'' dl;
            dir = getDirectory dl' sat ns ew la lo yr;
            hh = dir @ getFilename sat ns ew la lo yr ''sl_HH'';
            hv = dir @ getFilename sat ns ew la lo yr ''sl_HV'';
            mp = dir @ getFilename sat ns ew la lo yr ''mask'';
            dp = dir @ getFilename sat ns ew la lo yr ''date''
        in if files e hv = None then Inl IOError
           else
             bind_err (gdal_Open e hh) (\<lambda>ds.
             bind_err (getMask e mp) (\<lambda>m.
               Inr \<lparr>lat = la, lon = lo, year = yr, hem_NS = ns, hem_EW = ew,
                    satellite = sat, dataloc = dl', directory = dir,
                    HH_path = hh, HV_path = hv, mask_path = mp, date_path = dp,
                    geo_t = GeoTransform ds, proj = Projection ds,
                    xSize = RasterXSize ds, ySize = RasterYSize ds, mask = m\<rparr>)))"



section \<open>Array operations of numpy and scipy\<close>

definition broadcast_dim :: "nat \<Rightarrow> nat \<Rightarrow> nat option" where
  \<comment> \<open>numpy broadcasting of one axis: equal lengths, or one of them is 1\<close>
  "broadcast_dim a b =
     (if a = b then Some a else if a = 1 then Some b else if b = 1 then Some a else None)"

definition bidx :: "nat \<Rightarrow> nat \<Rightarrow> nat" where
  \<comment> \<open>the index read on an axis of length \<open>n\<close> that may have been stretched\<close>
  "bidx n i = (if n = 1 then 0 else i)"

definition ufunc2 :: "('a \<Rightarrow> 'b \<Rightarrow> 'c) \<Rightarrow> 'a array2 \<Rightarrow> 'b array2 \<Rightarrow> error + 'c array2" where
  \<comment> \<open>an elementwise binary operation between two arrays; shapes that do not broadcast raise\<close>
  "ufunc2 f a b =
     (case (broadcast_dim (shape0 a) (shape0 b), broadcast_dim (shape1 a) (shape1 b)) of
        (Some h, Some w) \<Rightarrow>
          Inr \<lparr>shape0 = h, shape1 = w,
               item = (\<lambda>i j. f (item a (bidx (shape0 a) i) (bidx (shape1 a) j))
                               (item b (bidx (shape0 b) i) (bidx (shape1 b) j)))\<rparr>
      | _ \<Rightarrow> Inl ValueError)"

definition set_where :: "bool array2 \<Rightarrow> 'a \<Rightarrow> 'a array2 \<Rightarrow> 'a array2" where
  \<comment> \<open>\<^verbatim>\<open>a[m] = v\<close> for a boolean index array \<open>m\<close> of the shape of \<open>a\<close>\<close>
  "set_where m v a =
     \<lparr>shape0 = shape0 a, shape1 = shape1 a,
      item = (\<lambda>i j. if item m i j then v else item a i j)\<rparr>"

definition slice_index :: "nat \<Rightarrow> int \<Rightarrow> nat" where
  \<comment> \<open>the position a slice bound \<open>i\<close> denotes in a sequence of length \<open>n\<close>\<close>
  "slice_index n i = (if i < 0 then nat (max 0 (int n + i)) else min n (nat i))"

definition slice2 :: "'a array2 \<Rightarrow> int \<Rightarrow> int \<Rightarrow> int \<Rightarrow> int \<Rightarrow> 'a array2" where
  \<comment> \<open>\<^verbatim>\<open>a[r0:r1, c0:c1]\<close>\<close>
  "slice2 a r0 r1 c0 c1 =
     (let rs = slice_index (shape0 a) r0; re = slice_index (shape0 a) r1;
          cs = slice_index (shape1 a) c0; ce = slice_index (shape1 a) c1
      in \<lparr>shape0 = re - rs, shape1 = ce - cs, item = (\<lambda>i j. item a (rs + i) (cs + j))\<rparr>)"

definition np_ones :: "int \<Rightarrow> error + fl array2" where
  \<comment> \<open>\<^verbatim>\<open>np.ones((n, n))\<close>; negative dimensions are not allowed\<close>
  "np_ones n =
     (if n < 0 then Inl ValueError
      else Inr \<lparr>shape0 = nat n, shape1 = nat n, item = (\<lambda>i j. Fin 1)\<rparr>)"

text \<open>
  \<^verbatim>\<open>scipy.signal.convolve2d(in1, in2, boundary = 'symm')\<close> in its default mode
  \<^verbatim>\<open>'full'\<close>: the output has \<open>shape in1 + shape in2 - 1\<close> entries on each axis, an
  index that leaves \<open>in1\<close> is mirrored at the edge it left, and the products are added
  to a sum that starts at 0, the rows of \<open>in2\<close> in turn and each row from left to right.
\<close>

definition reflect :: "nat \<Rightarrow> int \<Rightarrow> int" where
  "reflect n i = (if i < 0 then - 1 - i else if int n \<le> i then int n + int n - 1 - i else i)"

definition fsum :: "arith \<Rightarrow> fl list \<Rightarrow> fl" where
  "fsum A xs = foldl (fadd A) (Fin 0) xs"

definition convolve2d_symm :: "arith \<Rightarrow> fl array2 \<Rightarrow> fl array2 \<Rightarrow> fl array2" where
  "convolve2d_symm A in1 in2 =
     \<lparr>shape0 = shape0 in1 + shape0 in2 - 1,
      shape1 = shape1 in1 + shape1 in2 - 1,
      item = (\<lambda>m n. fsum A (concat (map (\<lambda>j. map (\<lambda>l.
                fmul A (item in2 j l)
                     (item in1 (nat (reflect (shape0 in1) (int m - int j)))
                               (nat (reflect (shape1 in1) (int n - int l)))))
                [0..<shape1 in2]) [0..<shape0 in2])))\<rparr>"

section \<open>Enhanced Lee filter\<close>

definition window_kernel :: "arith \<Rightarrow> int \<Rightarrow> error + fl array2" where
  \<comment> \<open>\<^verbatim>\<open>np.ones((window_size, window_size)) / (window_size ** 2)\<close>\<close>
  "window_kernel A window_size =
     bind_err (np_ones window_size) (\<lambda>ones.
       Inr (map_array2 (\<lambda>v. fdiv A v (float_of_int A (window_size ^ 2))) ones))"

definition window_mean :: "arith \<Rightarrow> fl array2 \<Rightarrow> int \<Rightarrow> error + fl array2" where
  "window_mean A img window_size =
     bind_err (window_kernel A window_size) (\<lambda>kernel.
       let c1 = convolve2d_symm A img kernel;
           border = window_size div 2
       in Inr (slice2 c1 border (- border) border (- border)))"

definition window_stdev :: "arith \<Rightarrow> fl array2 \<Rightarrow> int \<Rightarrow> error + fl array2" where
  "window_stdev A img window_size =
     bind_err (window_kernel A window_size) (\<lambda>kernel.
       let c1 = convolve2d_symm A img kernel;
           c2 = convolve2d_symm A (map_array2 (\<lambda>v. fmul A v v) img) kernel;
           border = window_size div 2
       in bind_err (ufunc2 (fmul A) c1 c1) (\<lambda>c1c1.
          bind_err (ufunc2 (fsub A) c2 c1c1) (\<lambda>var.
            Inr (slice2 (map_array2 (fsqrt A) var) border (- border) border (- border)))))"

text \<open>A numpy masked array: the data and the mask (True marks an invalid entry).\<close>

record marray =
  data :: "fl array2"
  mmask :: "bool array2"

text \<open>
  The power \<^verbatim>\<open>x ** 0.5\<close> of a Python float, a square root computed by the power
  function: Python 2 refuses a negative base.
\<close>

fun fpow_half :: "arith \<Rightarrow> fl \<Rightarrow> fl" where
  "fpow_half A (Fin a) = (if a < 0 then NaN else libm A (sqrt a))"
| "fpow_half A NaN = NaN"
| "fpow_half A x = PInf"

definition py_pow_half :: "arith \<Rightarrow> fl \<Rightarrow> error + fl" where
  "py_pow_half A x = (if flt x (Fin 0) \<and> x \<noteq> NInf then Inl ValueError else Inr (fpow_half A x))"

definition lee_thresholds :: "arith \<Rightarrow> int \<Rightarrow> error + (fl \<times> fl)" where
  \<comment> \<open>lines 63 and 64: \<^verbatim>\<open>cu = (1./n_looks) ** 0.5\<close> and
      \<^verbatim>\<open>cmax = (1 + (2./n_looks)) ** 0.5\<close>\<close>
  "lee_thresholds A n_looks =
     bind_err (py_div A (Fin 1) (float_of_int A n_looks)) (\<lambda>q.
     bind_err (py_pow_half A q) (\<lambda>cu.
     bind_err (py_div A (Fin 2) (float_of_int A n_looks)) (\<lambda>q2.
     bind_err (py_pow_half A (fadd A (Fin 1) q2)) (\<lambda>cmax.
       Inr (cu, cmax)))))"

definition lee_weights :: "arith \<Rightarrow> fl array2 \<Rightarrow> fl \<Rightarrow> fl \<Rightarrow> fl \<Rightarrow> fl array2" where
  \<comment> \<open>lines 79 to 86: the three conditions of the filter, assigned in this order\<close>
  "lee_weights A ci k cu cmax =
     (let w_t = map_array2 (\<lambda>c. Fin 0) ci;
          w_t = set_where (map_array2 (\<lambda>c. fle c cu) ci) (Fin 1) w_t;
          w_t = set_where (map_array2 (\<lambda>c. fge c cmax) ci) (Fin 0) w_t;
          s = map_array2 (\<lambda>c. fgt c cu \<and> flt c cmax) ci
      in \<lparr>shape0 = shape0 w_t, shape1 = shape1 w_t,
          item = (\<lambda>i j. if item s i j
                         then fexp A (fdiv A (fmul A (fneg k) (fsub A (item ci i j) cu))
                                            (fsub A cmax (item ci i j)))
                         else item w_t i j)\<rparr>)"

definition lee_body :: "arith \<Rightarrow> fl array2 \<Rightarrow> int \<Rightarrow> fl \<Rightarrow> fl \<Rightarrow> fl \<Rightarrow> error + marray" where
  \<comment> \<open>lines 73 to 94, on the NaN-filled data \<^verbatim>\<open>img_mask\<close>\<close>
  "lee_body A img_mask window_size k cu cmax =
     bind_err (window_mean A img_mask window_size) (\<lambda>img_mean.
     bind_err (window_stdev A img_mask window_size) (\<lambda>img_std.
     bind_err (ufunc2 (fdiv A) img_std img_mean) (\<lambda>ci.
       let ci = map_array2 (\<lambda>c. if isfinite c then c else Fin 0) ci;
           w_t = lee_weights A ci k cu cmax
       in bind_err (ufunc2 (fmul A) img_mean w_t) (\<lambda>a.
          bind_err (ufunc2 (fmul A) img_mask (map_array2 (\<lambda>w. fsub A (Fin 1) w) w_t)) (\<lambda>b.
          bind_err (ufunc2 (fadd A) a b) (\<lambda>img_filtered.
            let m = map_array2 isnan img_filtered
            in Inr \<lparr>data = set_where m (Fin 0) img_filtered, mmask = m\<rparr>))))))"

text \<open>
  The filter returns its result together with the caller's array as the call leaves it:
  \<^verbatim>\<open>img_mask = img.data\<close> is the data buffer of \<^verbatim>\<open>img\<close> itself, so the assignment of
  line 71 writes into the argument. \<^verbatim>\<open>type(window_size == int)\<close> is a type object, which
  is true, so the first assertion never fails. The thresholds are computed, and may
  raise, before the argument is written.
\<close>

definition enhanced_lee_filter ::
  "arith \<Rightarrow> marray \<Rightarrow> int \<Rightarrow> int \<Rightarrow> (error + marray) \<times> marray" where
  "enhanced_lee_filter A img window_size n_looks =
     (if window_size mod 2 \<noteq> 1 then (Inl AssertionError, img)
      else
        case lee_thresholds A n_looks of
          Inl e \<Rightarrow> (Inl e, img)
        | Inr (cu, cmax) \<Rightarrow>
            let k = Fin 1;
                img_mask = set_where (mmask img) NaN (data img)
            in (lee_body A img_mask window_size k cu cmax, img\<lparr>data := img_mask\<rparr>))"

section \<open>What the specification says of the filter\<close>

text \<open>
  The definitions of this section follow the words of the specification, not the code:
  the two thresholds, the coefficient of variation with its non-finite values replaced
  by 0, the weight as a case distinction on it, and the output pixel
  \<open>mu * w + original * (1 - w)\<close>, all in the arithmetic of the machine.
\<close>

definition spec_cu :: "arith \<Rightarrow> int \<Rightarrow> fl" where
  "spec_cu A L = fpow_half A (fdiv A (Fin 1) (float_of_int A L))"

definition spec_cmax :: "arith \<Rightarrow> int \<Rightarrow> fl" where
  "spec_cmax A L = fpow_half A (fadd A (Fin 1) (fdiv A (Fin 2) (float_of_int A L)))"

definition spec_ci :: "arith \<Rightarrow> fl \<Rightarrow> fl \<Rightarrow> fl" where
  "spec_ci A sigma mu = (if isfinite (fdiv A sigma mu) then fdiv A sigma mu else Fin 0)"

definition spec_weight :: "arith \<Rightarrow> fl \<Rightarrow> fl \<Rightarrow> fl \<Rightarrow> fl" where
  "spec_weight A cu cmax ci =
     (if fle ci cu then Fin 1
      else if fge ci cmax then Fin 0
      else fexp A (fdiv A (fmul A (Fin (- 1)) (fsub A ci cu)) (fsub A cmax ci)))"

definition spec_lee_pixel :: "arith \<Rightarrow> fl \<Rightarrow> fl \<Rightarrow> fl \<Rightarrow> int \<Rightarrow> fl" where
  "spec_lee_pixel A mu sigma original L =
     (let w = spec_weight A (spec_cu A L) (spec_cmax A L) (spec_ci A sigma mu)
      in fadd A (fmul A mu w) (fmul A original (fsub A (Fin 1) w)))"

definition spec_lee_output :: "arith \<Rightarrow> marray \<Rightarrow> int \<Rightarrow> int \<Rightarrow> nat \<Rightarrow> nat \<Rightarrow> error + fl" where
  \<comment> \<open>the output pixel of the specification at row \<open>i\<close>, column \<open>j\<close>, from the window mean
      and standard deviation of the NaN-filled input\<close>
  "spec_lee_output A img window_size L i j =
     (let original = set_where (mmask img) NaN (data img)
      in bind_err (window_mean A original window_size) (\<lambda>mean.
         bind_err (window_stdev A original window_size) (\<lambda>std.
           Inr (spec_lee_pixel A (item mean i j) (item std i j) (item original i j) L))))"

text \<open>Reading one entry of a result that may be an error.\<close>

definition value_at :: "error + 'a array2 \<Rightarrow> nat \<Rightarrow> nat \<Rightarrow> error + 'a" where
  "value_at r i j = bind_err r (\<lambda>a. Inr (item a i j))"

definition result_data :: "error + marray \<Rightarrow> error + fl array2" where
  "result_data r = bind_err r (\<lambda>out. Inr (data out))"

definition result_mask :: "error + marray \<Rightarrow> error + bool array2" where
  "result_mask r = bind_err r (\<lambda>out. Inr (mmask out))"

definition result_shape :: "error + 'a array2 \<Rightarrow> error + (nat \<times> nat)" where
  "result_shape r = bind_err r (\<lambda>a. Inr (shape0 a, shape1 a))"


text \<open>
  What some theorems ask of the rounding: it keeps 0 and 1 and it is monotone, as every
  rounding mode of IEEE 754 is. A monotone rounding never returns NaN.
\<close>

definition monotone_rounding :: "arith \<Rightarrow> bool" where
  "monotone_rounding A \<longleftrightarrow>
     rnd A 0 = Fin 0 \<and> rnd A 1 = Fin 1 \<and> (\<forall>x y. x \<le> y \<longrightarrow> fle (rnd A x) (rnd A y))"

section \<open>Calibration of a tile\<close>

text \<open>
  Operations of \<^verbatim>\<open>numpy.ma\<close> between a masked array and a scalar. An arithmetic
  operation keeps the mask of the array and, under the mask, the data of its first
  operand (the scalar when it stands on the left). The division, the logarithm and the
  power also mask the entries where their result is not finite; the division and the
  logarithm keep the data of the array there, the power stores the fill value.
\<close>

definition ma_scalar_left :: "(fl \<Rightarrow> fl \<Rightarrow> fl) \<Rightarrow> fl \<Rightarrow> marray \<Rightarrow> marray" where
  "ma_scalar_left f c a =
     \<lparr>data = \<lparr>shape0 = shape0 (data a), shape1 = shape1 (data a),
               item = (\<lambda>i j. if item (mmask a) i j then c else f c (item (data a) i j))\<rparr>,
      mmask = mmask a\<rparr>"

definition ma_scalar_right :: "(fl \<Rightarrow> fl \<Rightarrow> fl) \<Rightarrow> marray \<Rightarrow> fl \<Rightarrow> marray" where
  "ma_scalar_right f a c =
     \<lparr>data = \<lparr>shape0 = shape0 (data a), shape1 = shape1 (data a),
               item = (\<lambda>i j. if item (mmask a) i j then item (data a) i j
                              else f (item (data a) i j) c)\<rparr>,
      mmask = mmask a\<rparr>"

definition ma_domained :: "(fl \<Rightarrow> fl) \<Rightarrow> marray \<Rightarrow> marray" where
  \<comment> \<open>an operation of one array whose non-finite results are masked, the data of the
      array being kept under the mask\<close>
  "ma_domained f a =
     \<lparr>data = \<lparr>shape0 = shape0 (data a), shape1 = shape1 (data a),
               item = (\<lambda>i j. if item (mmask a) i j \<or> \<not> isfinite (f (item (data a) i j))
                              then item (data a) i j else f (item (data a) i j))\<rparr>,
      mmask = \<lparr>shape0 = shape0 (mmask a), shape1 = shape1 (mmask a),
                item = (\<lambda>i j. item (mmask a) i j \<or> \<not> isfinite (f (item (data a) i j)))\<rparr>\<rparr>"

definition fill_value :: "arith \<Rightarrow> fl" where
  "fill_value A = rnd A (10 ^ 20)"

definition ma_fix_invalid :: "arith \<Rightarrow> marray \<Rightarrow> marray" where
  \<comment> \<open>the end of \<^verbatim>\<open>numpy.ma.power\<close>: non-finite results are masked and filled\<close>
  "ma_fix_invalid A a =
     \<lparr>data = \<lparr>shape0 = shape0 (data a), shape1 = shape1 (data a),
               item = (\<lambda>i j. if isfinite (item (data a) i j) then item (data a) i j
                              else fill_value A)\<rparr>,
      mmask = \<lparr>shape0 = shape0 (mmask a), shape1 = shape1 (mmask a),
                item = (\<lambda>i j. item (mmask a) i j \<or> \<not> isfinite (item (data a) i j))\<rparr>\<rparr>"

fun flog10 :: "arith \<Rightarrow> fl \<Rightarrow> fl" where
  "flog10 A (Fin a) = (if a < 0 then NaN else if a = 0 then NInf else libm A (log 10 a))"
| "flog10 A PInf = PInf"
| "flog10 A x = NaN"

fun fpow10 :: "arith \<Rightarrow> fl \<Rightarrow> fl" where
  \<comment> \<open>\<^verbatim>\<open>10 ** x\<close>\<close>
  "fpow10 A (Fin a) = libm A (10 powr a)"
| "fpow10 A PInf = PInf"
| "fpow10 A NInf = Fin 0"
| "fpow10 A NaN = NaN"

definition getDN :: "arith \<Rightarrow> env \<Rightarrow> ALOS \<Rightarrow> string \<Rightarrow> error + marray" where
  \<comment> \<open>the digital numbers masked by the mask of the tile, already as the floats that the
      caller's \<^verbatim>\<open>astype\<close> makes of them; \<^verbatim>\<open>np.ma.array\<close> refuses a mask of another
      shape\<close>
  "getDN A e t polarisation =
     (if \<not> (polarisation = ''HH'' \<or> polarisation = ''HV'') then Inl AssertionError
      else
        bind_err (gdal_Open e (if polarisation = ''HV'' then HV_path t else HH_path t)) (\<lambda>DN_ds.
          let DN = band DN_ds
          in if shape0 DN = shape0 (mask t) \<and> shape1 DN = shape1 (mask t)
             then Inr \<lparr>data = map_array2 (float_of_int A) DN, mmask = mask t\<rparr>
             else Inl MaskError))"

definition getGamma0 ::
  "arith \<Rightarrow> env \<Rightarrow> ALOS \<Rightarrow> string \<Rightarrow> string \<Rightarrow> bool \<Rightarrow> error + marray" where
  "getGamma0 A e t polarisation units lee_filter =
     (if \<not> (units = ''natural'' \<or> units = ''decibels'') then Inl AssertionError
      else
        bind_err (getDN A e t polarisation) (\<lambda>DN.
          let gamma0 = ma_scalar_right (fsub A)
                         (ma_scalar_left (fmul A) (Fin 10)
                            (ma_domained (flog10 A)
                               (ma_fix_invalid A (ma_scalar_right (\<lambda>x y. fmul A x x) DN (Fin 2)))))
                         (Fin 83)
          in bind_err (if lee_filter then fst (enhanced_lee_filter A gamma0 3 16) else Inr gamma0)
               (\<lambda>gamma0.
                  let gamma0 = (if units = ''natural''
                                then ma_fix_invalid A
                                       (ma_scalar_left (\<lambda>x y. fpow10 A y) (Fin 10)
                                          (ma_domained (\<lambda>x. fdiv A x (Fin 10)) gamma0))
                                else gamma0)
                  in Inr (gamma0\<lparr>data := set_where (mask t) (Fin 0) (data gamma0)\<rparr>))))"

definition getAGB :: "arith \<Rightarrow> env \<Rightarrow> ALOS \<Rightarrow> bool \<Rightarrow> error + marray" where
  \<comment> \<open>\<^verbatim>\<open>getAGB(lee_filter)\<close> without writing a file; the message of the last branch has no
      conversion for its argument, so building it raises a \<open>TypeError\<close>\<close>
  "getAGB A e t lee_filter =
     (if satellite t = ''ALOS-1'' \<or> satellite t = ''ALOS-2'' then
        bind_err (getGamma0 A e t ''HV'' ''natural'' lee_filter) (\<lambda>gamma0.
          let AGB = ma_scalar_right (fsub A)
                      (ma_scalar_left (fmul A) (rnd A 715.667) gamma0) (rnd A 5.967)
          in Inr (AGB\<lparr>data := set_where (mask t) (Fin 0) (data AGB)\<rparr>))
      else Inl TypeError)"

text \<open>A masked array of the given shape whose every entry is masked.\<close>

definition all_masked :: "marray \<Rightarrow> nat \<Rightarrow> nat \<Rightarrow> bool" where
  "all_masked a h w \<longleftrightarrow>
     shape0 (data a) = h \<and> shape1 (data a) = w
     \<and> (\<forall>i j. i < h \<longrightarrow> j < w \<longrightarrow> item (mmask a) i j)"

section \<open>Rasterization of a shapefile\<close>

text \<open>
  A shape of the shapefile, as the reader gives it, and the shapefile: the names of its
  attribute fields (without the deletion flag), the attribute values of each shape, the
  shapes, and the transformation of a point from the reference system of the shapefile to
  that of the tiles, which \<^verbatim>\<open>_coordinateTransformer\<close> builds.
\<close>

record shape =
  shapeType :: int
  bbox :: "fl \<times> fl \<times> fl \<times> fl"
  parts :: "nat list"
  points :: "(fl \<times> fl) list"

record shapefile =
  field_names :: "string list"
  records :: "string list list"
  shapes :: "shape list"
  TransformPoint :: "fl \<Rightarrow> fl \<Rightarrow> fl \<times> fl"

text \<open>
  The drawing operations of the imaging library are not part of the module. Each takes
  the pixel coordinates (x, y) of the vertices, the value to draw and the image, stored
  by rows: the entry of row \<open>y\<close> and column \<open>x\<close> is the pixel (x, y).
\<close>

record imagedraw =
  draw_point :: "(int \<times> int) list \<Rightarrow> int \<Rightarrow> int array2 \<Rightarrow> int array2"
  draw_line :: "(int \<times> int) list \<Rightarrow> int \<Rightarrow> int array2 \<Rightarrow> int array2"
  draw_polygon :: "(int \<times> int) list \<Rightarrow> int \<Rightarrow> int array2 \<Rightarrow> int array2"

primrec sequence_err :: "(error + 'a) list \<Rightarrow> error + 'a list" where
  "sequence_err [] = Inr []"
| "sequence_err (r # rs) =
     bind_err r (\<lambda>v. bind_err (sequence_err rs) (\<lambda>vs. Inr (v # vs)))"

primrec fold_err :: "('b \<Rightarrow> 'a \<Rightarrow> error + 'a) \<Rightarrow> 'b list \<Rightarrow> 'a \<Rightarrow> error + 'a" where
  \<comment> \<open>a \<^verbatim>\<open>for\<close> loop over a list that updates a state and may raise\<close>
  "fold_err f [] s = Inr s"
| "fold_err f (x # xs) s = bind_err (f x s) (fold_err f xs)"

definition getField :: "shapefile \<Rightarrow> string \<Rightarrow> error + string list" where
  \<comment> \<open>the loop keeps the last field of the name; none raises the assertion\<close>
  "getField sf field =
     (case filter (\<lambda>n. field_names sf ! n = field) [0..<length (field_names sf)] of
        [] \<Rightarrow> Inl AssertionError
      | n # ns \<Rightarrow>
          let field_n = last (n # ns)
          in sequence_err
               (map (\<lambda>s. if field_n < length s then Inr (s ! field_n) else Inl IndexError)
                    (records sf)))"

definition dilate1 :: "bool array2 \<Rightarrow> bool array2" where
  \<comment> \<open>one iteration of \<^verbatim>\<open>binary_dilation\<close> with its default structuring element, the
      pixel and its four neighbours; outside the array is False\<close>
  "dilate1 a =
     \<lparr>shape0 = shape0 a, shape1 = shape1 a,
      item = (\<lambda>i j. item a i j
                \<or> (0 < i \<and> item a (i - 1) j) \<or> (i + 1 < shape0 a \<and> item a (i + 1) j)
                \<or> (0 < j \<and> item a i (j - 1)) \<or> (j + 1 < shape1 a \<and> item a i (j + 1)))\<rparr>"

definition dilateMask :: "int array2 \<Rightarrow> nat \<Rightarrow> int array2" where
  \<comment> \<open>\<^verbatim>\<open>dilateMask(mask, buffer_px)\<close> with \<open>buffer_px > 0\<close>; the boolean result is kept as
      0 and 1, which is how the comparison \<^verbatim>\<open>mask > 0\<close> reads it\<close>
  "dilateMask m buffer_px =
     map_array2 (\<lambda>b. if b then 1 else 0)
       ((dilate1 ^^ buffer_px) (map_array2 (\<lambda>v. v \<noteq> 0) m))"

definition draw_part ::
  "arith \<Rightarrow> imagedraw \<Rightarrow> ALOS \<Rightarrow> shapefile \<Rightarrow> fl \<Rightarrow> shape \<Rightarrow> nat list \<Rightarrow> nat \<Rightarrow> int array2
     \<Rightarrow> error + int array2" where
  \<comment> \<open>the body of the loop over the parts of a shape, \<open>indices\<close> being the part starts
      followed by the number of points\<close>
  "draw_part A pil tile shp buffer_size sh indices part rasterPoly =
     (let start_index = indices ! part;
          end_index = indices ! (part + 1);
          pts = take (end_index - start_index) (drop start_index (points sh))
      in bind_err
           (sequence_err
              (map (\<lambda>p. case TransformPoint shp (fst p) (snd p) of
                           (x, y) \<Rightarrow> world2Pixel A (geo_t tile) x y buffer_size) pts))
           (\<lambda>pixels.
              Inr (if shapeType sh = 0 then draw_point pil pixels 1 rasterPoly
                   else if shapeType sh = 3 then draw_line pil pixels 1 rasterPoly
                   else if shapeType sh = 5 then draw_polygon pil pixels 1 rasterPoly
                   else rasterPoly)))"

definition draw_shape ::
  "arith \<Rightarrow> imagedraw \<Rightarrow> ALOS \<Rightarrow> shapefile \<Rightarrow> fl \<Rightarrow> shape \<Rightarrow> int array2
     \<Rightarrow> error + int array2" where
  \<comment> \<open>the body of the loop over the shapes: the four tests on the bounding box, then
      the parts\<close>
  "draw_shape A pil tile shp buffer_size sh rasterPoly =
     (case bbox sh of (sxmin0, symin0, sxmax0, symax0) \<Rightarrow>
      case TransformPoint shp sxmin0 symin0 of (sxmin, symin) \<Rightarrow>
      case TransformPoint shp sxmax0 symax0 of (sxmax, symax) \<Rightarrow>
        if flt sxmax (fsub A (gt0 (geo_t tile)) buffer_size) then Inr rasterPoly
        else if fgt sxmin
                  (fadd A (fadd A (gt0 (geo_t tile))
                                  (fmul A (gt1 (geo_t tile)) (float_of_int A (int (ySize tile)))))
                          buffer_size)
          then Inr rasterPoly
        else if flt symax
                  (fadd A (fadd A (gt3 (geo_t tile))
                                  (fmul A (gt5 (geo_t tile)) (float_of_int A (int (xSize tile)))))
                          buffer_size)
          then Inr rasterPoly
        else if fgt symin (fsub A (gt3 (geo_t tile)) buffer_size) then Inr rasterPoly
        else
          let n_parts = length (parts sh);
              indices = parts sh @ [length (points sh)]
          in fold_err (draw_part A pil tile shp buffer_size sh indices) [0..<n_parts] rasterPoly)"

definition rasterizeShapefile ::
  "arith \<Rightarrow> imagedraw \<Rightarrow> ALOS \<Rightarrow> shapefile \<Rightarrow> fl \<Rightarrow> string option \<Rightarrow> string option
     \<Rightarrow> error + bool array2" where
  "rasterizeShapefile A pil tile shp buffer_size field val =
     (if \<not> ((field = None \<and> val = None) \<or> (field \<noteq> None \<and> val \<noteq> None))
        then Inl AssertionError
      else
        bind_err (py_div A buffer_size (gt1 (geo_t tile))) (\<lambda>q.
        bind_err (py_int (py_round q)) (\<lambda>buffer_px.
        let width = int (ySize tile) + (buffer_px * 2);
            height = int (xSize tile) + (buffer_px * 2)
        in if width < 0 \<or> height < 0 then Inl ValueError
           else
             let rasterPoly = \<lparr>shape0 = nat height, shape1 = nat width, item = (\<lambda>i j. 0)\<rparr>
             in bind_err
                  (case field of
                     None \<Rightarrow> Inr (shapes shp)
                   | Some f \<Rightarrow>
                       bind_err (getField shp f) (\<lambda>vals.
                         Inr (map snd (filter (\<lambda>vs. Some (fst vs) = val)
                                         (zip vals (shapes shp))))))
                  (\<lambda>selected.
                     bind_err (fold_err (draw_shape A pil tile shp buffer_size) selected rasterPoly)
                       (\<lambda>rasterPoly.
                          let m = (if buffer_px > 0 then dilateMask rasterPoly (nat buffer_px)
                                   else rasterPoly);
                              m = slice2 m buffer_px (int (shape0 m) - buffer_px)
                                           buffer_px (int (shape1 m) - buffer_px)
                          in Inr (map_array2 (\<lambda>v. v > 0) m))))))"

definition exact_on :: "arith \<Rightarrow> real list \<Rightarrow> bool" where
  \<comment> \<open>the arithmetic rounds none of the listed numbers, as is the case of a number that
      the floating-point format represents\<close>
  "exact_on A xs = list_all (\<lambda>x. rnd A x = Fin x) xs"

definition keeps_size :: "imagedraw \<Rightarrow> bool" where
  \<comment> \<open>drawing does not change the size of the image\<close>
  "keeps_size pil \<longleftrightarrow>
     (\<forall>ps v im. shape0 (draw_point pil ps v im) = shape0 im
                \<and> shape1 (draw_point pil ps v im) = shape1 im
                \<and> shape0 (draw_line pil ps v im) = shape0 im
                \<and> shape1 (draw_line pil ps v im) = shape1 im
                \<and> shape0 (draw_polygon pil ps v im) = shape0 im
                \<and> shape1 (draw_polygon pil ps v im) = shape1 im)"

section \<open>Example inputs\<close>

definition full :: "nat \<Rightarrow> nat \<Rightarrow> 'a \<Rightarrow> 'a array2" where
  \<comment> \<open>the array of the given shape with every entry equal to \<open>v\<close>\<close>
  "full h w v = \<lparr>shape0 = h, shape1 = w, item = (\<lambda>i j. v)\<rparr>"

definition unit_geo_t :: geotransform where
  \<comment> \<open>origin (0, 0), pixels of width 1 and height -1\<close>
  "unit_geo_t =
     \<lparr>gt0 = Fin 0, gt1 = Fin 1, gt2 = Fin 0, gt3 = Fin 0, gt4 = Fin 0, gt5 = Fin (- 1)\<rparr>"

definition example_raster :: raster where
  \<comment> \<open>a raster file of one pixel with the value 255\<close>
  "example_raster =
     \<lparr>GeoTransform = unit_geo_t, Projection = ''WGS84'', RasterXSize = 1, RasterYSize = 1,
      band = \<lparr>shape0 = 1, shape1 = 1, item = (\<lambda>i j. 255)\<rparr>\<rparr>"

definition example_env :: env where
  \<comment> \<open>the year 2026, and a file system where every path holds \<open>example_raster\<close>\<close>
  "example_env = \<lparr>now_year = 2026, files = (\<lambda>p. Some example_raster)\<rparr>"

definition masked_centre :: marray where
  \<comment> \<open>three rows and three columns of value 5, the pixel in the middle masked\<close>
  "masked_centre =
     \<lparr>data = full 3 3 (Fin 5),
      mmask = \<lparr>shape0 = 3, shape1 = 3, item = (\<lambda>i j. i = 1 \<and> j = 1)\<rparr>\<rparr>"

definition masked_image :: marray where
  \<comment> \<open>three rows and three columns of value 5, all masked\<close>
  "masked_image = \<lparr>data = full 3 3 (Fin 5), mmask = full 3 3 True\<rparr>"

definition masked_raster :: raster where
  \<comment> \<open>a raster file of three rows and three columns of the value 0\<close>
  "masked_raster =
     \<lparr>GeoTransform = unit_geo_t, Projection = ''WGS84'', RasterXSize = 3, RasterYSize = 3,
      band = full 3 3 0\<rparr>"

definition masked_env :: env where
  \<comment> \<open>a file system where every path holds \<open>masked_raster\<close>: the mask file of a tile
      differs from 255 everywhere, so that no pixel of the tile is valid\<close>
  "masked_env = \<lparr>now_year = 2026, files = (\<lambda>p. Some masked_raster)\<rparr>"

definition flat_image :: marray where
  \<comment> \<open>three rows and three columns of value 1, none masked\<close>
  "flat_image = \<lparr>data = full 3 3 (Fin 1), mmask = full 3 3 False\<rparr>"

definition tall_raster :: raster where
  \<comment> \<open>a raster file of three rows and two columns of the value 0\<close>
  "tall_raster =
     \<lparr>GeoTransform = unit_geo_t, Projection = ''WGS84'', RasterXSize = 2, RasterYSize = 3,
      band = full 3 2 0\<rparr>"

definition tall_env :: env where
  \<comment> \<open>a file system where every path holds \<open>tall_raster\<close>\<close>
  "tall_env = \<lparr>now_year = 2026, files = (\<lambda>p. Some tall_raster)\<rparr>"

definition plain_shapefile :: "shape list \<Rightarrow> shapefile" where
  \<comment> \<open>a shapefile of the given shapes, without attributes, in the reference system of the
      tiles\<close>
  "plain_shapefile shs =
     \<lparr>field_names = [], records = map (\<lambda>s. []) shs, shapes = shs,
      TransformPoint = (\<lambda>x y. (x, y))\<rparr>"

definition line_shape :: shape where
  \<comment> \<open>the line from (1/2, -1/2) to (5/2, -1/2), which runs through the middle of the
      three pixels of the top row of a tile of \<open>unit_geo_t\<close>\<close>
  "line_shape =
     \<lparr>shapeType = 3,
      bbox = (Fin (1 / 2), Fin (- (1 / 2)), Fin (5 / 2), Fin (- (1 / 2))),
      parts = [0],
      points = [(Fin (1 / 2), Fin (- (1 / 2))), (Fin (5 / 2), Fin (- (1 / 2)))]\<rparr>"

definition draw_vertices :: "(int \<times> int) list \<Rightarrow> int \<Rightarrow> int array2 \<Rightarrow> int array2" where
  \<comment> \<open>draws the pixels of the vertices that lie in the image, and nothing else\<close>
  "draw_vertices pixels v im =
     \<lparr>shape0 = shape0 im, shape1 = shape1 im,
      item = (\<lambda>i j. if (int j, int i) \<in> set pixels then v else item im i j)\<rparr>"

definition vertex_draw :: imagedraw where
  \<comment> \<open>a drawer that marks the vertices only: the least that the drawing of a point, a
      line or a polygon marks\<close>
  "vertex_draw =
     \<lparr>draw_point = draw_vertices, draw_line = draw_vertices, draw_polygon = draw_vertices\<rparr>"

section \<open>Helper lemmas\<close>

lemma bind_err_Inr: "bind_err r f = Inr v \<Longrightarrow> \<exists>u. r = Inr u \<and> f u = Inr v"
  by (cases r) (simp_all add: bind_err_def)

lemma bind_err_simps [simp]:
  "bind_err (Inr u) f = f u" "bind_err (Inl e) f = Inl e"
  by (simp_all add: bind_err_def)

lemma lat_lon_asserts:
  "(real_of_int la < 90 \<or> real_of_int la > - 90)
   \<and> (real_of_int lo < 180 \<or> real_of_int lo > - 180)"
  by linarith

lemma ALOS_init_bad_year:
  "\<not> ((2007 \<le> yr \<and> yr \<le> 2010) \<or> (2015 \<le> yr \<and> yr \<le> now_year e))
   \<Longrightarrow> ALOS_init e la lo yr dl = Inl AssertionError"
  unfolding ALOS_init_def using lat_lon_asserts [of la lo] by simp

lemma ALOS_init_Inr:
  assumes "ALOS_init e la lo yr dl = Inr t"
  shows "((2007 \<le> yr \<and> yr \<le> 2010) \<or> (2015 \<le> yr \<and> yr \<le> now_year e))"
    and "satellite t = getSatellite yr" and "lat t = la" and "lon t = lo" and "year t = yr"
proof -
  show v: "((2007 \<le> yr \<and> yr \<le> 2010) \<or> (2015 \<le> yr \<and> yr \<le> now_year e))"
    using assms ALOS_init_bad_year [of yr e la lo dl] by fastforce
  have "satellite t = getSatellite yr \<and> lat t = la \<and> lon t = lo \<and> year t = yr"
    using assms v lat_lon_asserts [of la lo] unfolding ALOS_init_def Let_def
    by (auto split: if_splits dest!: bind_err_Inr)
  then show "satellite t = getSatellite yr" and "lat t = la" and "lon t = lo" and "year t = yr"
    by simp_all
qed

lemma ALOS_init_example:
  "(2007 \<le> yr \<and> yr \<le> 2010) \<or> (2015 \<le> yr \<and> yr \<le> 2026)
   \<Longrightarrow> \<exists>t. ALOS_init example_env la lo yr dl = Inr t"
  unfolding ALOS_init_def using lat_lon_asserts [of la lo]
  by (simp add: Let_def bind_err_def gdal_Open_def getMask_def example_env_def)

section \<open>Shapes and NaN propagation in the windowed statistics\<close>

lemma bidx_id [simp]: "i < n \<Longrightarrow> bidx n i = i"
  by (auto simp: bidx_def)

lemma ufunc2_same_shape:
  assumes "shape0 a = shape0 b" "shape1 a = shape1 b"
  shows "ufunc2 f a b =
    Inr \<lparr>shape0 = shape0 a, shape1 = shape1 a,
         item = (\<lambda>i j. f (item a (bidx (shape0 a) i) (bidx (shape1 a) j))
                         (item b (bidx (shape0 a) i) (bidx (shape1 a) j)))\<rparr>"
  using assms by (simp add: ufunc2_def broadcast_dim_def)

lemma window_kernel_ok:
  "0 \<le> k \<Longrightarrow> window_kernel A k =
     Inr \<lparr>shape0 = nat k, shape1 = nat k, item = (\<lambda>i j. fdiv A (Fin 1) (float_of_int A (k ^ 2)))\<rparr>"
  by (simp add: window_kernel_def np_ones_def map_array2_def)

lemma odd_window:
  assumes "3 \<le> k" "k mod 2 = 1"
  obtains b :: nat where "k = 2 * int b + 1" "1 \<le> b" "k div 2 = int b" "nat k = 2 * b + 1"
proof -
  have k: "k = 2 * (k div 2) + 1"
    using assms(2) mult_div_mod_eq [of 2 k] by simp
  then have q: "1 \<le> k div 2" using assms(1) by linarith
  define b where "b = nat (k div 2)"
  have b: "int b = k div 2" using q by (simp add: b_def)
  have "k = 2 * int b + 1" using k b by simp
  moreover have "1 \<le> b" using q b by linarith
  moreover have "nat k = 2 * b + 1" using \<open>k = 2 * int b + 1\<close> by simp
  ultimately show ?thesis using that b by simp
qed

lemma slice_len: "3 \<le> k \<Longrightarrow> k mod 2 = 1 \<Longrightarrow>
   slice_index (h + nat k - 1) (- (k div 2)) - slice_index (h + nat k - 1) (k div 2) = h"
  by (erule (1) odd_window) (simp add: slice_index_def)

lemma slice_start: "3 \<le> k \<Longrightarrow> k mod 2 = 1 \<Longrightarrow> slice_index (h + nat k - 1) (k div 2) = nat (k div 2)"
  by (erule (1) odd_window) (simp add: slice_index_def)

lemma bidx_ne1 [simp]: "n \<noteq> 1 \<Longrightarrow> bidx n i = i"
  by (simp add: bidx_def)

lemma fl_NaN_simps [simp]:
  "fsub A x NaN = NaN" "fadd A x NaN = NaN" "fmul A x NaN = NaN" "fdiv A x NaN = NaN"
  by (cases x; simp add: fsub_def)+

lemma fl_NaN_left [simp]:
  "fsub A NaN x = NaN"
  by (simp add: fsub_def)

lemma foldl_fadd_NaN: "foldl (fadd A) NaN xs = NaN"
  by (induction xs) simp_all

lemma fsum_NaN: "NaN \<in> set xs \<Longrightarrow> fsum A xs = NaN"
proof -
  have "NaN \<in> set xs \<Longrightarrow> foldl (fadd A) acc xs = NaN" for acc
    by (induction xs arbitrary: acc) (auto simp: foldl_fadd_NaN)
  then show "NaN \<in> set xs \<Longrightarrow> fsum A xs = NaN" by (simp add: fsum_def)
qed

lemma reflect_id [simp]: "i < n \<Longrightarrow> reflect n (int i) = int i"
  by (simp add: reflect_def)

lemma conv_center_NaN:
  assumes "b < shape0 ker" "b < shape1 ker" "i < shape0 img" "j < shape1 img"
    and "item img i j = NaN"
  shows "item (convolve2d_symm A img ker) (b + i) (b + j) = NaN"
proof -
  have "fmul A (item ker b b) (item img (nat (reflect (shape0 img) (int (b + i) - int b)))
           (nat (reflect (shape1 img) (int (b + j) - int b)))) = NaN"
    using assms by simp
  then have "NaN \<in> set (concat (map (\<lambda>ja. map (\<lambda>l.
                fmul A (item ker ja l)
                     (item img (nat (reflect (shape0 img) (int (b + i) - int ja)))
                               (nat (reflect (shape1 img) (int (b + j) - int l)))))
                [0..<shape1 ker]) [0..<shape0 ker]))"
    using assms(1,2) by (auto intro!: bexI [of _ b] simp: image_iff)
  then show ?thesis by (simp add: convolve2d_symm_def fsum_NaN)
qed

lemma shape_conv [simp]:
  "shape0 (convolve2d_symm A a b) = shape0 a + shape0 b - 1"
  "shape1 (convolve2d_symm A a b) = shape1 a + shape1 b - 1"
  by (simp_all add: convolve2d_symm_def)

lemma shape_map [simp]:
  "shape0 (map_array2 f a) = shape0 a" "shape1 (map_array2 f a) = shape1 a"
  "item (map_array2 f a) i j = f (item a i j)"
  by (simp_all add: map_array2_def)

lemma window_kernel_shape:
  assumes "window_kernel A k = Inr ker" "0 \<le> k"
  shows "shape0 ker = nat k" "shape1 ker = nat k"
    "item ker i j = fdiv A (Fin 1) (float_of_int A (k ^ 2))"
proof -
  from assms(1) have "Inr \<lparr>shape0 = nat k, shape1 = nat k,
                item = (\<lambda>i j. fdiv A (Fin 1) (float_of_int A (k ^ 2)))\<rparr> = (Inr ker :: error + fl array2)"
    by (simp only: window_kernel_ok [OF assms(2)])
  then have e: "\<lparr>shape0 = nat k, shape1 = nat k,
                item = (\<lambda>i j. fdiv A (Fin 1) (float_of_int A (k ^ 2)))\<rparr> = ker"
    by (rule Inr_inject)
  show "shape0 ker = nat k" "shape1 ker = nat k"
    "item ker i j = fdiv A (Fin 1) (float_of_int A (k ^ 2))"
    unfolding e [symmetric] by simp_all
qed

lemma slice2_odd:
  assumes "3 \<le> k" "k mod 2 = 1" "shape0 c = h + nat k - 1" "shape1 c = w + nat k - 1"
  shows "shape0 (slice2 c (k div 2) (- (k div 2)) (k div 2) (- (k div 2))) = h"
    "shape1 (slice2 c (k div 2) (- (k div 2)) (k div 2) (- (k div 2))) = w"
    "item (slice2 c (k div 2) (- (k div 2)) (k div 2) (- (k div 2))) i j
       = item c (nat (k div 2) + i) (nat (k div 2) + j)"
proof -
  obtain b :: nat where b: "k = 2 * int b + 1" "1 \<le> b" "k div 2 = int b" "nat k = 2 * b + 1"
    using assms(1,2) by (rule odd_window)
  have c: "shape0 c = h + 2 * b" "shape1 c = w + 2 * b"
    using assms(3,4) b(4) by simp_all
  have i: "slice_index (h + 2 * b) (int b) = b" "slice_index (h + 2 * b) (- int b) = h + b"
    "slice_index (w + 2 * b) (int b) = b" "slice_index (w + 2 * b) (- int b) = w + b"
    using b(2) by (simp_all add: slice_index_def)
  show "shape0 (slice2 c (k div 2) (- (k div 2)) (k div 2) (- (k div 2))) = h"
    "shape1 (slice2 c (k div 2) (- (k div 2)) (k div 2) (- (k div 2))) = w"
    "item (slice2 c (k div 2) (- (k div 2)) (k div 2) (- (k div 2))) i j
       = item c (nat (k div 2) + i) (nat (k div 2) + j)"
    unfolding b(3) slice2_def Let_def c i by simp_all
qed

lemma window_stdev_ok:
  assumes "3 \<le> k" "k mod 2 = 1" "window_kernel A k = Inr ker"
  shows "\<exists>s. window_stdev A img k = Inr s \<and> shape0 s = shape0 img \<and> shape1 s = shape1 img
     \<and> (\<forall>i j. item s i j =
           fsqrt A (fsub A (item (convolve2d_symm A (map_array2 (\<lambda>v. fmul A v v) img) ker)
                           (nat (k div 2) + i) (nat (k div 2) + j))
                       (fmul A (item (convolve2d_symm A img ker) (nat (k div 2) + i) (nat (k div 2) + j))
                             (item (convolve2d_symm A img ker) (nat (k div 2) + i) (nat (k div 2) + j)))))"
proof -
  obtain b :: nat where b: "k = 2 * int b + 1" "1 \<le> b" "k div 2 = int b" "nat k = 2 * b + 1"
    using assms(1,2) by (rule odd_window)
  have ker: "shape0 ker = nat k" "shape1 ker = nat k"
    using window_kernel_shape [OF assms(3)] assms(1) by simp_all
  define c1 where "c1 = convolve2d_symm A img ker"
  define c2 where "c2 = convolve2d_symm A (map_array2 (\<lambda>v. fmul A v v) img) ker"
  have s1: "shape0 c1 = shape0 img + nat k - 1" "shape1 c1 = shape1 img + nat k - 1"
    and s2: "shape0 c2 = shape0 img + nat k - 1" "shape1 c2 = shape1 img + nat k - 1"
    by (simp_all add: c1_def c2_def ker)
  have ne: "shape0 c1 \<noteq> 1" "shape1 c1 \<noteq> 1" using s1 b by simp_all
  define c1c1 where "c1c1 = \<lparr>shape0 = shape0 c1, shape1 = shape1 c1,
         item = (\<lambda>i j. fmul A (item c1 i j) (item c1 i j))\<rparr>"
  have m: "ufunc2 (fmul A) c1 c1 = Inr c1c1"
    using ne by (simp add: ufunc2_same_shape c1c1_def)
  define var where "var = \<lparr>shape0 = shape0 c1, shape1 = shape1 c1,
         item = (\<lambda>i j. fsub A (item c2 i j) (item c1c1 i j))\<rparr>"
  have v: "ufunc2 (fsub A) c2 c1c1 = Inr var"
    using ne s1 s2 by (simp add: ufunc2_same_shape c1c1_def var_def)
  have sv: "shape0 (map_array2 (fsqrt A) var) = shape0 img + nat k - 1"
     "shape1 (map_array2 (fsqrt A) var) = shape1 img + nat k - 1"
    by (simp_all add: var_def s1)
  have "window_stdev A img k
      = Inr (slice2 (map_array2 (fsqrt A) var) (k div 2) (- (k div 2)) (k div 2) (- (k div 2)))"
    unfolding window_stdev_def using assms(3) m v
    by (simp add: Let_def c1_def [symmetric] c2_def [symmetric])
  then show ?thesis
    using slice2_odd [OF assms(1,2) sv]
    by (simp add: var_def c1c1_def c1_def c2_def)
qed

lemma window_mean_ok:
  assumes "3 \<le> k" "k mod 2 = 1" "window_kernel A k = Inr ker"
  shows "\<exists>m. window_mean A img k = Inr m \<and> shape0 m = shape0 img \<and> shape1 m = shape1 img
     \<and> (\<forall>i j. item m i j
            = item (convolve2d_symm A img ker) (nat (k div 2) + i) (nat (k div 2) + j))"
proof -
  have ker: "shape0 ker = nat k" "shape1 ker = nat k"
    using window_kernel_shape [OF assms(3)] assms(1) by simp_all
  have s: "shape0 (convolve2d_symm A img ker) = shape0 img + nat k - 1"
     "shape1 (convolve2d_symm A img ker) = shape1 img + nat k - 1"
    by (simp_all add: ker)
  have "window_mean A img k
      = Inr (slice2 (convolve2d_symm A img ker) (k div 2) (- (k div 2)) (k div 2) (- (k div 2)))"
    unfolding window_mean_def assms(3) by (simp add: Let_def)
  then show ?thesis
    using slice2_odd [OF assms(1,2) s] by simp
qed

lemma window_kernel_ex: "0 \<le> k \<Longrightarrow> \<exists>ker. window_kernel A k = Inr ker"
  by (simp add: window_kernel_ok)

lemma window_mean_NaN:
  assumes "3 \<le> k" "k mod 2 = 1" "window_mean A img k = Inr m"
    "i < shape0 img" "j < shape1 img" "item img i j = NaN"
  shows "item m i j = NaN"
proof -
  obtain ker where ker: "window_kernel A k = Inr ker"
    using window_kernel_ex [of k] assms(1) by auto
  obtain b :: nat where b: "k = 2 * int b + 1" "1 \<le> b" "k div 2 = int b" "nat k = 2 * b + 1"
    using assms(1,2) by (rule odd_window)
  have sk: "shape0 ker = nat k" "shape1 ker = nat k"
    using window_kernel_shape [OF ker] assms(1) by simp_all
  have "b < shape0 ker" "b < shape1 ker" using sk b(4) by simp_all
  then have "item (convolve2d_symm A img ker) (b + i) (b + j) = NaN"
    using assms(4,5,6) by (rule conv_center_NaN)
  moreover have "item m i j = item (convolve2d_symm A img ker) (b + i) (b + j)"
    using window_mean_ok [OF assms(1,2) ker, of img] assms(3) b(3) by auto
  ultimately show ?thesis by simp
qed



lemma ufunc2_same:
  assumes "shape0 a = h" "shape1 a = w" "shape0 b = h" "shape1 b = w"
  shows "\<exists>c. ufunc2 f a b = Inr c \<and> shape0 c = h \<and> shape1 c = w
     \<and> (\<forall>i j. i < h \<longrightarrow> j < w \<longrightarrow> item c i j = f (item a i j) (item b i j))"
  using assms by (simp add: ufunc2_def broadcast_dim_def)

lemma set_where_simps [simp]:
  "shape0 (set_where m v a) = shape0 a" "shape1 (set_where m v a) = shape1 a"
  "item (set_where m v a) i j = (if item m i j then v else item a i j)"
  by (simp_all add: set_where_def)

lemma lee_weights_shape [simp]:
  "shape0 (lee_weights A ci k cu cmax) = shape0 ci"
  "shape1 (lee_weights A ci k cu cmax) = shape1 ci"
  by (simp_all add: lee_weights_def Let_def)

lemma lee_weights_spec:
  assumes "flt cu cmax" "item ci i j = Fin c"
  shows "item (lee_weights A ci (Fin 1) cu cmax) i j = spec_weight A cu cmax (Fin c)"
  using assms
  by (cases cu; cases cmax)
     (auto simp add: lee_weights_def Let_def spec_weight_def fge_def fgt_def)

lemma spec_ci_finite: "\<exists>c. spec_ci A s m = Fin c"
  by (cases "fdiv A s m") (simp_all add: spec_ci_def)

lemma lee_body_ok:
  assumes k: "3 \<le> k" "k mod 2 = 1"
  shows "\<exists>mean std wt out.
     window_mean A img k = Inr mean \<and> window_stdev A img k = Inr std
     \<and> lee_body A img k kk cu cmax = Inr out
     \<and> shape0 (data out) = shape0 img \<and> shape1 (data out) = shape1 img
     \<and> shape0 (mmask out) = shape0 img \<and> shape1 (mmask out) = shape1 img
     \<and> (\<forall>i j. i < shape0 img \<longrightarrow> j < shape1 img \<longrightarrow>
          item (mmask out) i j
            = isnan (fadd A (fmul A (item mean i j) (wt i j))
                          (fmul A (item img i j) (fsub A (Fin 1) (wt i j))))
          \<and> item (data out) i j
            = (if item (mmask out) i j then Fin 0
               else fadd A (fmul A (item mean i j) (wt i j))
                          (fmul A (item img i j) (fsub A (Fin 1) (wt i j)))))
     \<and> (kk = Fin 1 \<longrightarrow> flt cu cmax \<longrightarrow>
          (\<forall>i j. i < shape0 img \<longrightarrow> j < shape1 img \<longrightarrow>
             wt i j = spec_weight A cu cmax (spec_ci A (item std i j) (item mean i j))))"
proof -
  define h where "h = shape0 img"
  define w where "w = shape1 img"
  obtain ker where ker: "window_kernel A k = Inr ker"
    using window_kernel_ex [of k A] k(1) by auto
  obtain mean where mean: "window_mean A img k = Inr mean" "shape0 mean = h" "shape1 mean = w"
    using window_mean_ok [OF k ker, of img] by (auto simp: h_def w_def)
  obtain std where std: "window_stdev A img k = Inr std" "shape0 std = h" "shape1 std = w"
    using window_stdev_ok [OF k ker, of img] by (auto simp: h_def w_def)
  obtain ci0 where ci0: "ufunc2 (fdiv A) std mean = Inr ci0" "shape0 ci0 = h" "shape1 ci0 = w"
    "\<And>i j. i < h \<Longrightarrow> j < w \<Longrightarrow> item ci0 i j = fdiv A (item std i j) (item mean i j)"
    using ufunc2_same [OF std(2,3) mean(2,3), of "fdiv A"] by blast
  define ci where "ci = map_array2 (\<lambda>c. if isfinite c then c else Fin 0) ci0"
  have ci: "shape0 ci = h" "shape1 ci = w"
    "\<And>i j. i < h \<Longrightarrow> j < w \<Longrightarrow> item ci i j = spec_ci A (item std i j) (item mean i j)"
  proof -
    show "shape0 ci = h" "shape1 ci = w" using ci0(2,3) by (simp_all add: ci_def)
    show "\<And>i j. i < h \<Longrightarrow> j < w \<Longrightarrow> item ci i j = spec_ci A (item std i j) (item mean i j)"
      by (simp only: ci_def shape_map ci0(4) spec_ci_def)
  qed
  define w_t where "w_t = lee_weights A ci kk cu cmax"
  have w_t: "shape0 w_t = h" "shape1 w_t = w"
    using ci(1,2) by (simp_all add: w_t_def)
  have w_spec: "item w_t i j = spec_weight A cu cmax (spec_ci A (item std i j) (item mean i j))"
    if "kk = Fin 1" "flt cu cmax" "i < h" "j < w" for i j
  proof -
    obtain r where r: "spec_ci A (item std i j) (item mean i j) = Fin r"
      using spec_ci_finite by blast
    have "item ci i j = Fin r" using ci(3) [OF that(3,4)] r by simp
    then show ?thesis
      unfolding w_t_def r that(1) by (rule lee_weights_spec [OF that(2)])
  qed
  obtain a where a: "ufunc2 (fmul A) mean w_t = Inr a" "shape0 a = h" "shape1 a = w"
    "\<And>i j. i < h \<Longrightarrow> j < w \<Longrightarrow> item a i j = fmul A (item mean i j) (item w_t i j)"
    using ufunc2_same [OF mean(2,3) w_t(1,2), of "fmul A"] by blast
  define w1 where "w1 = map_array2 (\<lambda>w. fsub A (Fin 1) w) w_t"
  have w1: "shape0 w1 = h" "shape1 w1 = w" using w_t(1,2) by (simp_all add: w1_def)
  have img: "shape0 img = h" "shape1 img = w" by (simp_all add: h_def w_def)
  obtain b where b: "ufunc2 (fmul A) img w1 = Inr b" "shape0 b = h" "shape1 b = w"
    "\<And>i j. i < h \<Longrightarrow> j < w \<Longrightarrow> item b i j = fmul A (item img i j) (item w1 i j)"
    using ufunc2_same [OF img w1, of "fmul A"] by blast
  obtain f where f: "ufunc2 (fadd A) a b = Inr f" "shape0 f = h" "shape1 f = w"
    "\<And>i j. i < h \<Longrightarrow> j < w \<Longrightarrow> item f i j = fadd A (item a i j) (item b i j)"
    using ufunc2_same [OF a(2,3) b(2,3), of "fadd A"] by blast
  define out where "out = \<lparr>data = set_where (map_array2 isnan f) (Fin 0) f,
                           mmask = map_array2 isnan f\<rparr>"
  have body: "lee_body A img k kk cu cmax = Inr out"
    unfolding lee_body_def mean(1) std(1) bind_err_simps ci0(1) Let_def
      ci_def [symmetric] w_t_def [symmetric] a(1) w1_def [symmetric] b(1) f(1) out_def
    by (rule refl)
  have px: "\<And>i j. i < h \<Longrightarrow> j < w \<Longrightarrow> item f i j =
       fadd A (fmul A (item mean i j) (item w_t i j))
            (fmul A (item img i j) (fsub A (Fin 1) (item w_t i j)))"
    by (simp add: f(4) a(4) b(4) w1_def)
  have sh: "shape0 (data out) = h" "shape1 (data out) = w"
    "shape0 (mmask out) = h" "shape1 (mmask out) = w"
    by (simp_all add: out_def f(2,3))
  have o: "\<And>i j. i < h \<Longrightarrow> j < w \<Longrightarrow>
      item (mmask out) i j = isnan (item f i j)
      \<and> item (data out) i j = (if item (mmask out) i j then Fin 0 else item f i j)"
    by (simp add: out_def)
  show ?thesis
    using mean(1) std(1) body px sh o w_spec unfolding h_def [symmetric] w_def [symmetric]
    by (intro exI [of _ mean] exI [of _ std] exI [of _ "item w_t"] exI [of _ out]) simp
qed

section \<open>The filter, pixel by pixel\<close>

lemma flt_special [simp]:
  "flt PInf y = False" "flt x NInf = False" "flt x NaN = False" "fle x NaN = False"
  by (cases y; simp) (cases x; simp)+

lemma lee_thresholds_spec:
  assumes "flt (spec_cu A L) (spec_cmax A L)"
  shows "lee_thresholds A L = Inr (spec_cu A L, spec_cmax A L)"
proof -
  define d where "d = float_of_int A L"
  define q where "q = fdiv A (Fin 1) d"
  define s where "s = fadd A (Fin 1) (fdiv A (Fin 2) d)"
  have cu: "spec_cu A L = fpow_half A q" and cmax: "spec_cmax A L = fpow_half A s"
    by (simp_all add: spec_cu_def spec_cmax_def q_def s_def d_def)
  have d0: "d \<noteq> Fin 0"
  proof
    assume "d = Fin 0"
    then have "spec_cu A L = PInf" by (simp add: cu q_def)
    then show False using assms by simp
  qed
  have q: "py_pow_half A q = Inr (fpow_half A q)"
    using assms unfolding cu by (cases q) (auto simp: py_pow_half_def)
  have s: "py_pow_half A s = Inr (fpow_half A s)"
    using assms unfolding cmax by (cases s; cases "fpow_half A q") (auto simp: py_pow_half_def)
  show ?thesis
    unfolding lee_thresholds_def d_def [symmetric] using d0 q s
    by (simp add: py_div_def q_def [symmetric] s_def [symmetric] cu cmax)
qed

lemma monotone_rounding_nonneg:
  assumes "monotone_rounding A" "0 \<le> x"
  shows "rnd A x = PInf \<or> (\<exists>r. 0 \<le> r \<and> rnd A x = Fin r)"
proof -
  have "fle (Fin 0) (rnd A x)"
    using assms unfolding monotone_rounding_def by metis
  then show ?thesis by (cases "rnd A x") simp_all
qed

lemma monotone_rounding_ge1:
  assumes "monotone_rounding A" "1 \<le> x"
  shows "rnd A x = PInf \<or> (\<exists>r. 1 \<le> r \<and> rnd A x = Fin r)"
proof -
  have "fle (Fin 1) (rnd A x)"
    using assms unfolding monotone_rounding_def by metis
  then show ?thesis by (cases "rnd A x") simp_all
qed

lemma fdiv_nonneg:
  assumes "monotone_rounding A" "0 \<le> a" "d = PInf \<or> (\<exists>r. 1 \<le> r \<and> d = Fin r)"
  shows "fdiv A (Fin a) d = PInf \<or> (\<exists>r. 0 \<le> r \<and> fdiv A (Fin a) d = Fin r)"
proof -
  from assms(3) show ?thesis
  proof
    assume "d = PInf" then show ?thesis by simp
  next
    assume "\<exists>r. 1 \<le> r \<and> d = Fin r"
    then obtain r where r: "1 \<le> r" "d = Fin r" by blast
    then have "0 \<le> a / r" using assms(2) by simp
    then show ?thesis
      using monotone_rounding_nonneg [OF assms(1), of "a / r"] r by simp
  qed
qed

lemma lee_thresholds_ok:
  assumes "monotone_rounding A" "1 \<le> L"
  shows "\<exists>cu cmax. lee_thresholds A L = Inr (cu, cmax)"
proof -
  define d where "d = float_of_int A L"
  have d: "d = PInf \<or> (\<exists>r. 1 \<le> r \<and> d = Fin r)"
    unfolding d_def float_of_int_def
    using monotone_rounding_ge1 [OF assms(1), of "of_int L"] assms(2) by simp
  then have d0: "d \<noteq> Fin 0" by auto
  have q: "fdiv A (Fin 1) d = PInf \<or> (\<exists>r. 0 \<le> r \<and> fdiv A (Fin 1) d = Fin r)"
    using assms(1) _ d by (rule fdiv_nonneg) simp
  have q2: "fdiv A (Fin 2) d = PInf \<or> (\<exists>r. 0 \<le> r \<and> fdiv A (Fin 2) d = Fin r)"
    using assms(1) _ d by (rule fdiv_nonneg) simp
  have p1: "\<exists>c. py_pow_half A (fdiv A (Fin 1) d) = Inr c"
    using q by (auto simp: py_pow_half_def)
  have "fadd A (Fin 1) (fdiv A (Fin 2) d) = PInf
        \<or> (\<exists>r. 0 \<le> r \<and> fadd A (Fin 1) (fdiv A (Fin 2) d) = Fin r)"
  proof -
    from q2 show ?thesis
    proof
      assume "fdiv A (Fin 2) d = PInf" then show ?thesis by simp
    next
      assume "\<exists>r. 0 \<le> r \<and> fdiv A (Fin 2) d = Fin r"
      then obtain r where r: "0 \<le> r" "fdiv A (Fin 2) d = Fin r" by blast
      then show ?thesis
        using monotone_rounding_nonneg [OF assms(1), of "1 + r"] by simp
    qed
  qed
  then have p2: "\<exists>c. py_pow_half A (fadd A (Fin 1) (fdiv A (Fin 2) d)) = Inr c"
    by (auto simp: py_pow_half_def)
  show ?thesis
    unfolding lee_thresholds_def d_def [symmetric] using d0 p1 p2
    by (auto simp add: py_div_def)
qed

lemma enhanced_lee_filter_valid:
  "window_size mod 2 = 1 \<Longrightarrow> lee_thresholds A n_looks = Inr (cu, cmax) \<Longrightarrow>
   enhanced_lee_filter A img window_size n_looks =
     (lee_body A (set_where (mmask img) NaN (data img)) window_size (Fin 1) cu cmax,
      img\<lparr>data := set_where (mmask img) NaN (data img)\<rparr>)"
  by (simp add: enhanced_lee_filter_def Let_def)

lemma filter_effect:
  assumes "window_size mod 2 = 1" "1 \<le> n_looks" "monotone_rounding A"
  shows "snd (enhanced_lee_filter A img window_size n_looks)
           = img\<lparr>data := set_where (mmask img) NaN (data img)\<rparr>"
proof -
  obtain cu cmax where "lee_thresholds A n_looks = Inr (cu, cmax)"
    using lee_thresholds_ok [OF assms(3,2)] by blast
  then show ?thesis using enhanced_lee_filter_valid [OF assms(1), of A n_looks cu cmax img] by simp
qed

lemma lee_filter_pixel:
  assumes "3 \<le> k" "k mod 2 = 1" "flt (spec_cu A L) (spec_cmax A L)"
    "i < shape0 (data img)" "j < shape1 (data img)"
  shows "value_at (result_data (fst (enhanced_lee_filter A img k L))) i j
           = (case spec_lee_output A img k L i j of Inr NaN \<Rightarrow> Inr (Fin 0) | r \<Rightarrow> r)"
    and "value_at (result_mask (fst (enhanced_lee_filter A img k L))) i j
           = Inr (spec_lee_output A img k L i j = Inr NaN)"
    and "\<exists>v. spec_lee_output A img k L i j = Inr v"
    and "result_shape (result_data (fst (enhanced_lee_filter A img k L)))
           = Inr (shape0 (data img), shape1 (data img))"
    and "result_shape (result_mask (fst (enhanced_lee_filter A img k L)))
           = Inr (shape0 (data img), shape1 (data img))"
proof -
  define orig where "orig = set_where (mmask img) NaN (data img)"
  define cu where "cu = spec_cu A L"
  define cmax where "cmax = spec_cmax A L"
  have c: "flt cu cmax" unfolding cu_def cmax_def by (rule assms(3))
  have th: "lee_thresholds A L = Inr (cu, cmax)"
    unfolding cu_def cmax_def using assms(3) by (rule lee_thresholds_spec)
  have sh: "shape0 orig = shape0 (data img)" "shape1 orig = shape1 (data img)"
    by (simp_all add: orig_def)
  obtain mean std wt out where r:
    "window_mean A orig k = Inr mean" "window_stdev A orig k = Inr std"
    "lee_body A orig k (Fin 1) cu cmax = Inr out"
    "shape0 (data out) = shape0 orig" "shape1 (data out) = shape1 orig"
    "shape0 (mmask out) = shape0 orig" "shape1 (mmask out) = shape1 orig"
    and px: "\<And>i j. i < shape0 orig \<Longrightarrow> j < shape1 orig \<Longrightarrow>
          item (mmask out) i j
            = isnan (fadd A (fmul A (item mean i j) (wt i j))
                          (fmul A (item orig i j) (fsub A (Fin 1) (wt i j))))
          \<and> item (data out) i j
            = (if item (mmask out) i j then Fin 0
               else fadd A (fmul A (item mean i j) (wt i j))
                          (fmul A (item orig i j) (fsub A (Fin 1) (wt i j))))"
    and ws: "\<And>i j. i < shape0 orig \<Longrightarrow> j < shape1 orig \<Longrightarrow>
             wt i j = spec_weight A cu cmax (spec_ci A (item std i j) (item mean i j))"
    using lee_body_ok [OF assms(1,2), of A orig "Fin 1" cu cmax] c by blast
  have f: "fst (enhanced_lee_filter A img k L) = Inr out"
    using enhanced_lee_filter_valid [OF assms(2) th, of img] r(3)
    by (simp add: orig_def)
  have ij: "i < shape0 orig" "j < shape1 orig" using assms(4,5) sh by simp_all
  define v where "v = fadd A (fmul A (item mean i j) (wt i j))
                          (fmul A (item orig i j) (fsub A (Fin 1) (wt i j)))"
  have s: "spec_lee_output A img k L i j = Inr v"
    unfolding spec_lee_output_def Let_def orig_def [symmetric] r(1,2) bind_err_simps
      spec_lee_pixel_def cu_def [symmetric] cmax_def [symmetric] v_def ws [OF ij]
    by (rule refl)
  have o: "item (mmask out) i j = isnan v"
    "item (data out) i j = (if item (mmask out) i j then Fin 0 else v)"
    using px [OF ij] by (simp_all add: v_def)
  show "\<exists>v. spec_lee_output A img k L i j = Inr v" using s by simp
  show "value_at (result_mask (fst (enhanced_lee_filter A img k L))) i j
           = Inr (spec_lee_output A img k L i j = Inr NaN)"
    unfolding f s using o by (cases v) (simp_all add: value_at_def result_mask_def)
  show "value_at (result_data (fst (enhanced_lee_filter A img k L))) i j
           = (case spec_lee_output A img k L i j of Inr NaN \<Rightarrow> Inr (Fin 0) | r \<Rightarrow> r)"
    unfolding f s using o by (cases v) (simp_all add: value_at_def result_data_def)
  show "result_shape (result_data (fst (enhanced_lee_filter A img k L)))
           = Inr (shape0 (data img), shape1 (data img))"
    unfolding f using r(4,5) sh by (simp add: result_shape_def result_data_def)
  show "result_shape (result_mask (fst (enhanced_lee_filter A img k L)))
           = Inr (shape0 (data img), shape1 (data img))"
    unfolding f using r(6,7) sh by (simp add: result_shape_def result_mask_def)
qed

lemma spec_lee_output_masked:
  assumes "3 \<le> k" "k mod 2 = 1" "i < shape0 (data img)" "j < shape1 (data img)"
    "item (mmask img) i j"
  shows "spec_lee_output A img k L i j = Inr NaN"
proof -
  define orig where "orig = set_where (mmask img) NaN (data img)"
  obtain ker where ker: "window_kernel A k = Inr ker"
    using window_kernel_ex [of k A] assms(1) by auto
  obtain mean where mean: "window_mean A orig k = Inr mean"
    using window_mean_ok [OF assms(1,2) ker, of orig] by auto
  obtain std where std: "window_stdev A orig k = Inr std"
    using window_stdev_ok [OF assms(1,2) ker, of orig] by auto
  have o: "i < shape0 orig" "j < shape1 orig" "item orig i j = NaN"
    using assms(3,4,5) by (simp_all add: orig_def)
  have "item mean i j = NaN"
    using assms(1,2) mean o by (rule window_mean_NaN)
  then show ?thesis
    unfolding spec_lee_output_def Let_def orig_def [symmetric] mean std bind_err_simps
      spec_lee_pixel_def by simp
qed

lemma lee_filter_masked:
  assumes "3 \<le> k" "k mod 2 = 1" "lee_thresholds A L = Inr (cu, cmax)"
  shows "\<exists>out. fst (enhanced_lee_filter A img k L) = Inr out
     \<and> shape0 (data out) = shape0 (data img) \<and> shape1 (data out) = shape1 (data img)
     \<and> shape0 (mmask out) = shape0 (data img) \<and> shape1 (mmask out) = shape1 (data img)
     \<and> (\<forall>i j. i < shape0 (data img) \<longrightarrow> j < shape1 (data img) \<longrightarrow> item (mmask img) i j
            \<longrightarrow> item (mmask out) i j \<and> item (data out) i j = Fin 0)"
proof -
  define orig where "orig = set_where (mmask img) NaN (data img)"
  have sh: "shape0 orig = shape0 (data img)" "shape1 orig = shape1 (data img)"
    by (simp_all add: orig_def)
  obtain mean std wt out where r:
    "window_mean A orig k = Inr mean"
    "lee_body A orig k (Fin 1) cu cmax = Inr out"
    "shape0 (data out) = shape0 orig" "shape1 (data out) = shape1 orig"
    "shape0 (mmask out) = shape0 orig" "shape1 (mmask out) = shape1 orig"
    and px: "\<And>i j. i < shape0 orig \<Longrightarrow> j < shape1 orig \<Longrightarrow>
          item (mmask out) i j
            = isnan (fadd A (fmul A (item mean i j) (wt i j))
                          (fmul A (item orig i j) (fsub A (Fin 1) (wt i j))))
          \<and> item (data out) i j
            = (if item (mmask out) i j then Fin 0
               else fadd A (fmul A (item mean i j) (wt i j))
                          (fmul A (item orig i j) (fsub A (Fin 1) (wt i j))))"
    using lee_body_ok [OF assms(1,2), of A orig "Fin 1" cu cmax] by blast
  have f: "fst (enhanced_lee_filter A img k L) = Inr out"
    using enhanced_lee_filter_valid [OF assms(2,3), of img] r(2)
    by (simp add: orig_def)
  have "item (mmask out) i j \<and> item (data out) i j = Fin 0"
    if "i < shape0 (data img)" "j < shape1 (data img)" "item (mmask img) i j" for i j
  proof -
    have o: "i < shape0 orig" "j < shape1 orig" "item orig i j = NaN"
      using that by (simp_all add: orig_def)
    have "item mean i j = NaN"
      using assms(1,2) r(1) o by (rule window_mean_NaN)
    then show ?thesis using px [OF o(1,2)] by simp
  qed
  then show ?thesis using f r(3-6) sh by simp
qed

lemma window_k1:
  "result_shape (window_mean A img 1) = Inr (0, 0)"
  "result_shape (window_stdev A img 1) = Inr (0, 0)"
  by (simp_all add: window_mean_def window_stdev_def window_kernel_def np_ones_def
        Let_def result_shape_def ufunc2_def broadcast_dim_def slice2_def slice_index_def)

lemma lee_body_k1: "lee_body A (data flat_image) 1 kk cu cmax = Inl ValueError"
  by (simp add: lee_body_def window_mean_def window_stdev_def
        window_kernel_def np_ones_def Let_def ufunc2_def broadcast_dim_def slice2_def
        slice_index_def flat_image_def full_def lee_weights_def)

lemma monotone_rounding_exact: "monotone_rounding exact"
  by (simp add: monotone_rounding_def exact_def)

lemma upt3: "[0..<3] = [0, 1, 2]" by (simp add: upt_rec)

lemma thresholds_exact_16: "flt (spec_cu exact 16) (spec_cmax exact 16)"
  by (simp add: spec_cu_def spec_cmax_def exact_def float_of_int_def)

lemma flat_image_output: "spec_lee_output exact flat_image 3 16 1 1 = Inr (Fin 1)"
  by (simp add: spec_lee_output_def spec_lee_pixel_def spec_ci_def spec_weight_def flat_image_def
       spec_cu_def spec_cmax_def float_of_int_def fsub_def fsum_def fge_def
       window_mean_def window_stdev_def window_kernel_def np_ones_def convolve2d_symm_def
       ufunc2_def broadcast_dim_def bidx_def exact_def
       slice2_def slice_index_def full_def map_array2_def set_where_def Let_def upt3)


section \<open>Tiles without a valid pixel\<close>

lemma all_masked_ops:
  assumes "all_masked a h w"
  shows "all_masked (ma_scalar_left f c a) h w" "all_masked (ma_scalar_right f a c) h w"
    "all_masked (ma_domained g a) h w" "all_masked (ma_fix_invalid A a) h w"
  using assms
  by (simp_all add: all_masked_def ma_scalar_left_def ma_scalar_right_def ma_domained_def
        ma_fix_invalid_def)

lemma all_masked_filter:
  assumes "all_masked a h w" "3 \<le> k" "k mod 2 = 1" "1 \<le> L" "monotone_rounding A"
  shows "\<exists>out. fst (enhanced_lee_filter A a k L) = Inr out \<and> all_masked out h w
           \<and> (\<forall>i j. i < h \<longrightarrow> j < w \<longrightarrow> item (data out) i j = Fin 0)"
proof -
  obtain cu cmax where t: "lee_thresholds A L = Inr (cu, cmax)"
    using lee_thresholds_ok [OF assms(5,4)] by blast
  show ?thesis
    using lee_filter_masked [OF assms(2,3) t, of a] assms(1)
    by (auto simp: all_masked_def)
qed

lemma getAGB_all_masked:
  assumes "monotone_rounding A"
    and "satellite t = ''ALOS-1'' \<or> satellite t = ''ALOS-2''"
    and "files e (HV_path t) = Some r"
    and "shape0 (band r) = shape0 (mask t)" and "shape1 (band r) = shape1 (mask t)"
    and "\<forall>i j. i < shape0 (mask t) \<longrightarrow> j < shape1 (mask t) \<longrightarrow> item (mask t) i j"
  shows "\<exists>agb. getAGB A e t lee_filter = Inr agb
           \<and> all_masked agb (shape0 (mask t)) (shape1 (mask t))
           \<and> (\<forall>i j. i < shape0 (mask t) \<longrightarrow> j < shape1 (mask t) \<longrightarrow> item (data agb) i j = Fin 0)"
proof -
  define h where "h = shape0 (mask t)"
  define w where "w = shape1 (mask t)"
  define DN where "DN = \<lparr>data = map_array2 (float_of_int A) (band r), mmask = mask t\<rparr>"
  have dn: "getDN A e t ''HV'' = Inr DN"
    using assms(3,4,5) by (simp add: getDN_def gdal_Open_def DN_def Let_def)
  have m0: "all_masked DN h w"
    using assms(4,5,6) by (simp add: all_masked_def DN_def h_def w_def)
  define g0 where "g0 = ma_scalar_right (fsub A)
                         (ma_scalar_left (fmul A) (Fin 10)
                            (ma_domained (flog10 A)
                               (ma_fix_invalid A (ma_scalar_right (\<lambda>x y. fmul A x x) DN (Fin 2)))))
                         (Fin 83)"
  have m1: "all_masked g0 h w"
    unfolding g0_def by (intro all_masked_ops m0)
  obtain g1 where g1:
    "(if lee_filter then fst (enhanced_lee_filter A g0 3 16) else Inr g0) = Inr g1"
    "all_masked g1 h w"
  proof (cases lee_filter)
    case True
    then show ?thesis
      using all_masked_filter [OF m1 _ _ _ assms(1), of 3 16] that by auto
  next
    case False
    then show ?thesis using m1 that by simp
  qed
  define g2 where "g2 = ma_fix_invalid A
                                       (ma_scalar_left (\<lambda>x y. fpow10 A y) (Fin 10)
                                          (ma_domained (\<lambda>x. fdiv A x (Fin 10)) g1))"
  have m2: "all_masked g2 h w"
    unfolding g2_def by (intro all_masked_ops g1(2))
  define g3 where "g3 = g2\<lparr>data := set_where (mask t) (Fin 0) (data g2)\<rparr>"
  have m3: "all_masked g3 h w"
    using m2 by (simp add: all_masked_def g3_def)
  have gam: "getGamma0 A e t ''HV'' ''natural'' lee_filter = Inr g3"
    unfolding getGamma0_def dn bind_err_simps Let_def g0_def [symmetric] g1(1)
      g2_def [symmetric] g3_def by simp
  define agb0 where "agb0 = ma_scalar_right (fsub A)
                      (ma_scalar_left (fmul A) (rnd A 715.667) g3) (rnd A 5.967)"
  have m4: "all_masked agb0 h w"
    unfolding agb0_def by (intro all_masked_ops m3)
  define agb where "agb = agb0\<lparr>data := set_where (mask t) (Fin 0) (data agb0)\<rparr>"
  have "getAGB A e t lee_filter = Inr agb"
    unfolding getAGB_def gam bind_err_simps Let_def agb0_def [symmetric] agb_def
    using assms(2) by simp
  moreover have "all_masked agb h w"
    using m4 by (simp add: all_masked_def agb_def)
  moreover have "\<forall>i j. i < h \<longrightarrow> j < w \<longrightarrow> item (data agb) i j = Fin 0"
    using assms(6) by (simp add: agb_def h_def w_def)
  ultimately show ?thesis unfolding h_def w_def by blast
qed

lemma ALOS_init_masked_env:
  "\<exists>t. ALOS_init masked_env (- 18) 33 2008 ''/data'' = Inr t
       \<and> satellite t = ''ALOS-1''
       \<and> mask t = map_array2 (\<lambda>v. v \<noteq> 255) (band masked_raster)"
  unfolding ALOS_init_def using lat_lon_asserts [of "- 18" 33]
  by (simp add: Let_def bind_err_def gdal_Open_def getMask_def masked_env_def getSatellite_def)

subsection \<open>Rasterization\<close>


lemma ALOS_init_tall_env:
  "\<exists>t. ALOS_init tall_env (- 18) 33 2008 ''/data'' = Inr t
       \<and> xSize t = 2 \<and> ySize t = 3 \<and> geo_t t = unit_geo_t
       \<and> mask t = map_array2 (\<lambda>v. v \<noteq> 255) (band tall_raster)"
  unfolding ALOS_init_def using lat_lon_asserts [of "- 18" 33]
  by (simp add: Let_def bind_err_def gdal_Open_def getMask_def tall_env_def getSatellite_def tall_raster_def)

lemma ALOS_init_masked_env_geo:
  "\<exists>t. ALOS_init masked_env (- 18) 33 2008 ''/data'' = Inr t
       \<and> xSize t = 3 \<and> ySize t = 3 \<and> geo_t t = unit_geo_t"
  unfolding ALOS_init_def using lat_lon_asserts [of "- 18" 33]
  by (simp add: Let_def bind_err_def gdal_Open_def getMask_def masked_env_def getSatellite_def masked_raster_def)

lemma rasterize_empty:
  assumes "rnd A 0 = Fin 0" "gt1 (geo_t t) = Fin 1"
  shows "rasterizeShapefile A pil t (plain_shapefile []) (Fin 0) None None
           = Inr (full (xSize t) (ySize t) False)"
  unfolding rasterizeShapefile_def
  using assms
  by (simp add: py_div_def plain_shapefile_def Let_def slice2_def slice_index_def map_array2_def full_def)


lemma exact_on_simps:
  "exact_on A [] = True"
  "exact_on A (x # xs) = (rnd A x = Fin x \<and> exact_on A xs)"
  by (simp_all add: exact_on_def)

lemma draw_shape_line_unbuffered:
  assumes "exact_on A [0, 1 / 2, - (1 / 2), 5 / 2, 3, - 3]"
    and "geo_t t = unit_geo_t" and "xSize t = 3" and "ySize t = 3"
  shows "draw_shape A pil t (plain_shapefile [line_shape]) (Fin 0) line_shape rp
           = Inr (draw_line pil [(0, 0), (2, 0)] 1 rp)"
  using assms unfolding draw_shape_def
  by (simp add: exact_on_simps plain_shapefile_def line_shape_def unit_geo_t_def fsub_def fgt_def
        float_of_int_def draw_part_def world2Pixel_def py_div_def Let_def)

lemma draw_shape_line_buffered:
  assumes "exact_on A [1, - 1, 3, - 3, 4, - 2]"
    and "geo_t t = unit_geo_t" and "xSize t = 3" and "ySize t = 3"
  shows "draw_shape A pil t (plain_shapefile [line_shape]) (Fin 1) line_shape rp = Inr rp"
  using assms unfolding draw_shape_def
  by (simp add: exact_on_simps plain_shapefile_def line_shape_def unit_geo_t_def fsub_def fgt_def
        float_of_int_def)


lemma rasterize_line_unbuffered:
  assumes "exact_on A [0, 1 / 2, - (1 / 2), 5 / 2, 3, - 3]"
    and "geo_t t = unit_geo_t" and "xSize t = 3" and "ySize t = 3"
  shows "rasterizeShapefile A pil t (plain_shapefile [line_shape]) (Fin 0) None None
           = Inr (map_array2 (\<lambda>v. v > 0)
                    (slice2 (draw_line pil [(0, 0), (2, 0)] 1 (full 3 3 0)) 0
                       (int (shape0 (draw_line pil [(0, 0), (2, 0)] 1 (full 3 3 0)))) 0
                       (int (shape1 (draw_line pil [(0, 0), (2, 0)] 1 (full 3 3 0))))))"
proof -
  have s: "shapes (plain_shapefile [line_shape]) = [line_shape]"
    by (simp add: plain_shapefile_def)
  have z: "rnd A 0 = Fin 0" using assms(1) by (simp add: exact_on_simps)
  show ?thesis
    unfolding rasterizeShapefile_def
    by (simp add: assms(2,3,4) z s py_div_def unit_geo_t_def Let_def full_def
          draw_shape_line_unbuffered [OF assms, unfolded unit_geo_t_def])
qed

lemma rasterize_line_buffered:
  assumes "exact_on A [1, - 1, 3, - 3, 4, - 2]"
    and "geo_t t = unit_geo_t" and "xSize t = 3" and "ySize t = 3"
  shows "rasterizeShapefile A pil t (plain_shapefile [line_shape]) (Fin 1) None None
           = Inr (full 3 3 False)"
proof -
  have s: "shapes (plain_shapefile [line_shape]) = [line_shape]"
    by (simp add: plain_shapefile_def)
  have z: "rnd A 1 = Fin 1" using assms(1) by (simp add: exact_on_simps)
  show ?thesis
    unfolding rasterizeShapefile_def
    by (simp add: assms(2,3,4) z s py_div_def unit_geo_t_def Let_def full_def
          draw_shape_line_buffered [OF assms, unfolded unit_geo_t_def]
          dilateMask_def dilate1_def map_array2_def slice2_def slice_index_def)
qed


lemma fold_err_invariant:
  assumes "\<And>x s s'. f x s = Inr s' \<Longrightarrow> P s \<Longrightarrow> P s'"
  shows "fold_err f xs s = Inr s' \<Longrightarrow> P s \<Longrightarrow> P s'"
proof (induction xs arbitrary: s)
  case Nil
  then show ?case by simp
next
  case (Cons x xs)
  from Cons.prems(1) obtain s1 where s1: "f x s = Inr s1" "fold_err f xs s1 = Inr s'"
    by (cases "f x s") simp_all
  from assms [OF s1(1) Cons.prems(2)] have "P s1" .
  then show ?case using Cons.IH [OF s1(2)] by simp
qed

lemma draw_part_size:
  assumes "keeps_size pil" and "draw_part A pil t shp b sh ix part rp = Inr rp'"
  shows "shape0 rp' = shape0 rp \<and> shape1 rp' = shape1 rp"
proof -
  let ?px = "sequence_err
              (map (\<lambda>p. case TransformPoint shp (fst p) (snd p) of
                           (x, y) \<Rightarrow> world2Pixel A (geo_t t) x y b)
                 (take (ix ! (part + 1) - ix ! part) (drop (ix ! part) (points sh))))"
  from assms(2) obtain pixels where p: "?px = Inr pixels"
    unfolding draw_part_def Let_def by (cases ?px) simp_all
  from assms(2) have "rp' = (if shapeType sh = 0 then draw_point pil pixels 1 rp
                   else if shapeType sh = 3 then draw_line pil pixels 1 rp
                   else if shapeType sh = 5 then draw_polygon pil pixels 1 rp
                   else rp)"
    unfolding draw_part_def Let_def p by simp
  then show ?thesis using assms(1) by (simp add: keeps_size_def)
qed

lemma draw_shape_size:
  assumes "keeps_size pil" and "draw_shape A pil t shp b sh rp = Inr rp'"
  shows "shape0 rp' = shape0 rp \<and> shape1 rp' = shape1 rp"
proof -
  let ?f = "fold_err (draw_part A pil t shp b sh (parts sh @ [length (points sh)]))
              [0..<length (parts sh)] rp"
  from assms(2) have "rp' = rp \<or> ?f = Inr rp'"
    unfolding draw_shape_def Let_def by (auto split: prod.splits if_splits)
  moreover have "?f = Inr rp' \<Longrightarrow> shape0 rp' = shape0 rp \<and> shape1 rp' = shape1 rp"
    by (rule fold_err_invariant
          [where P = "\<lambda>s. shape0 s = shape0 rp \<and> shape1 s = shape1 rp"
             and f = "draw_part A pil t shp b sh (parts sh @ [length (points sh)])"])
       (use draw_part_size [OF assms(1)] in auto)
  ultimately show ?thesis by auto
qed

lemma dilate_size:
  "shape0 ((dilate1 ^^ n) a) = shape0 a \<and> shape1 ((dilate1 ^^ n) a) = shape1 a"
  by (induction n) (simp_all add: dilate1_def)

lemma dilateMask_size:
  "shape0 (dilateMask m n) = shape0 m" "shape1 (dilateMask m n) = shape1 m"
  by (simp_all add: dilateMask_def map_array2_def dilate_size)

lemma crop_size:
  assumes "0 \<le> bp" and "N = nat (int n + bp * 2)"
  shows "slice_index N (int N - bp) - slice_index N bp = n"
  using assms by (simp add: slice_index_def)

lemma rasterizeShapefile_size:
  assumes "keeps_size pil"
    and "py_div A buffer_size (gt1 (geo_t t)) = Inr q"
    and "py_int (py_round q) = Inr buffer_px" and "0 \<le> buffer_px"
    and "rasterizeShapefile A pil t shp buffer_size field val = Inr m"
  shows "shape0 m = xSize t \<and> shape1 m = ySize t"
proof -
  let ?rp = "\<lparr>shape0 = nat (int (xSize t) + buffer_px * 2),
              shape1 = nat (int (ySize t) + buffer_px * 2), item = (\<lambda>i j. 0 :: int)\<rparr>"
  let ?sel = "(case field of
                     None \<Rightarrow> Inr (shapes shp)
                   | Some f \<Rightarrow>
                       bind_err (getField shp f) (\<lambda>vals.
                         Inr (map snd (filter (\<lambda>vs. Some (fst vs) = val)
                                         (zip vals (shapes shp))))))"
  define crop where "crop = (\<lambda>rasterPoly :: int array2.
                          let m = (if buffer_px > 0 then dilateMask rasterPoly (nat buffer_px)
                                   else rasterPoly);
                              m = slice2 m buffer_px (int (shape0 m) - buffer_px)
                                           buffer_px (int (shape1 m) - buffer_px)
                          in map_array2 (\<lambda>v. v > 0) m)"
  have r: "bind_err ?sel (\<lambda>selected.
             bind_err (fold_err (draw_shape A pil t shp buffer_size) selected ?rp)
               (\<lambda>rasterPoly. Inr (crop rasterPoly))) = Inr m"
    using assms(5) unfolding rasterizeShapefile_def crop_def
    by (simp add: assms(2,3) Let_def split: if_splits)
  then obtain selected where sel: "?sel = Inr selected" by (cases ?sel) simp_all
  from r have r2: "bind_err (fold_err (draw_shape A pil t shp buffer_size) selected ?rp)
               (\<lambda>rasterPoly. Inr (crop rasterPoly)) = Inr m"
    unfolding sel by simp
  then obtain rp where
    f: "fold_err (draw_shape A pil t shp buffer_size) selected ?rp = Inr rp"
    by (cases "fold_err (draw_shape A pil t shp buffer_size) selected ?rp") simp_all
  have "shape0 rp = shape0 ?rp \<and> shape1 rp = shape1 ?rp"
    by (rule fold_err_invariant
          [where P = "\<lambda>s. shape0 s = shape0 ?rp \<and> shape1 s = shape1 ?rp"
             and f = "draw_shape A pil t shp buffer_size", OF _ f])
       (use draw_shape_size [OF assms(1)] in auto)
  then have rp: "shape0 rp = nat (int (xSize t) + buffer_px * 2)"
    "shape1 rp = nat (int (ySize t) + buffer_px * 2)" by simp_all
  define d where "d = (if buffer_px > 0 then dilateMask rp (nat buffer_px) else rp)"
  have d: "shape0 d = nat (int (xSize t) + buffer_px * 2)"
    "shape1 d = nat (int (ySize t) + buffer_px * 2)"
    by (simp_all add: d_def dilateMask_size rp)
  have "m = crop rp" using r2 unfolding f by simp
  then have "m = map_array2 (\<lambda>v. v > 0)
                   (slice2 d buffer_px (int (shape0 d) - buffer_px)
                             buffer_px (int (shape1 d) - buffer_px))"
    by (simp add: crop_def Let_def d_def)
  then have "shape0 m = slice_index (shape0 d) (int (shape0 d) - buffer_px)
                          - slice_index (shape0 d) buffer_px"
    and "shape1 m = slice_index (shape1 d) (int (shape1 d) - buffer_px)
                          - slice_index (shape1 d) buffer_px"
    by (simp_all add: map_array2_def slice2_def Let_def)
  then show ?thesis
    using crop_size [OF assms(4) d(1)] crop_size [OF assms(4) d(2)] by simp
qed

section \<open>Coordinate mapping: truncation, not floor\<close>

text \<open>
  C2 is not what the code does. The code converts the two quotients with \<^verbatim>\<open>int()\<close>,
  which drops the fractional part, and the claim asks for their floors. At the geomatrix
  with origin (0, 0), pixel width 1 and pixel height -1, the point x = -1/2, y = 0 with
  buffer 0 lies in the pixel -1, the floor of its quotient -1/2, and the code returns the
  pixel 0. Every number of this computation is a double, so that the theorem asks of the
  rounding only that it leaves 0 and -1/2 as they are.
\<close>

theorem world2Pixel_left_of_origin:
  assumes "rnd A 0 = Fin 0" and "rnd A (- (1 / 2)) = Fin (- (1 / 2))"
  shows "world2Pixel A unit_geo_t (Fin (- (1 / 2))) (Fin 0) (Fin 0) = Inr (0, 0)
       \<and> \<lfloor>(- (1 / 2) - (0 - 0)) / 1 :: real\<rfloor> = - 1"
  using assms
  by (simp add: world2Pixel_def unit_geo_t_def fsub_def py_div_def Let_def
        ceiling_eq_iff floor_eq_iff)

theorem world2Pixel_left_of_origin_witness:
  "rnd exact 0 = Fin 0 \<and> rnd exact (- (1 / 2)) = Fin (- (1 / 2))
   \<and> world2Pixel exact unit_geo_t (Fin (- (1 / 2))) (Fin 0) (Fin 0) = Inr (0, 0)"
  using world2Pixel_left_of_origin [of exact] by (simp add: exact_def)

section \<open>Tile construction\<close>

text \<open>
  C4. Construction of a tile fails with the assertion error unless the year lies in
  2007-2010 or in 2015-present; when it succeeds, the year is in that range, and a year
  from 2015 on selects ALOS-2 and any other accepted year ALOS-1.
\<close>

theorem ALOS_init_year:
  "(\<not> ((2007 \<le> yr \<and> yr \<le> 2010) \<or> (2015 \<le> yr \<and> yr \<le> now_year e))
      \<longrightarrow> ALOS_init e la lo yr dl = Inl AssertionError)
   \<and> (\<forall>t. ALOS_init e la lo yr dl = Inr t
      \<longrightarrow> ((2007 \<le> yr \<and> yr \<le> 2010) \<or> (2015 \<le> yr \<and> yr \<le> now_year e))
          \<and> satellite t = (if 2015 \<le> yr then ''ALOS-2'' else ''ALOS-1''))"
  using ALOS_init_bad_year [of yr e la lo dl] ALOS_init_Inr(1,2) [of e la lo yr dl]
  by (simp add: getSatellite_def)

theorem ALOS_init_year_witness:
  "ALOS_init example_env (- 18) 33 2012 ''/data/'' = Inl AssertionError
   \<and> (\<exists>t. ALOS_init example_env (- 18) 33 2016 ''/data/'' = Inr t
          \<and> satellite t = ''ALOS-2'')
   \<and> (\<exists>t. ALOS_init example_env (- 18) 33 2008 ''/data/'' = Inr t
          \<and> satellite t = ''ALOS-1'')"
proof -
  have a: "ALOS_init example_env (- 18) 33 2012 ''/data/'' = Inl AssertionError"
    using ALOS_init_year [of 2012 example_env "- 18" 33 "''/data/''"]
    by (simp add: example_env_def)
  obtain t where t: "ALOS_init example_env (- 18) 33 2016 ''/data/'' = Inr t"
    using ALOS_init_example [of 2016 "- 18" 33 "''/data/''"] by auto
  have b: "satellite t = ''ALOS-2''"
    using ALOS_init_year [of 2016 example_env "- 18" 33 "''/data/''"] t by simp
  obtain u where u: "ALOS_init example_env (- 18) 33 2008 ''/data/'' = Inr u"
    using ALOS_init_example [of 2008 "- 18" 33 "''/data/''"] by auto
  have c: "satellite u = ''ALOS-1''"
    using ALOS_init_year [of 2008 example_env "- 18" 33 "''/data/''"] u by simp
  show ?thesis using a t b u c by simp
qed

text \<open>
  C9 is not what the code does. The assertion on the latitude reads
  \<^verbatim>\<open>lat < 90. or lat > -90.\<close>, which every integer satisfies, and the assertion on the
  longitude has the same form: with latitude 100 and longitude 200 no assertion fails.
  Where the files of the tile exist the construction succeeds and the tile carries the
  latitude 100 and the longitude 200.
\<close>

theorem ALOS_init_accepts_out_of_range_lat_lon:
  "\<exists>t. ALOS_init example_env 100 200 2008 ''/data'' = Inr t \<and> lat t = 100 \<and> lon t = 200"
proof -
  obtain t where t: "ALOS_init example_env 100 200 2008 ''/data'' = Inr t"
    using ALOS_init_example [of 2008 100 200 "''/data''"] by auto
  then show ?thesis using ALOS_init_Inr(3,4) [OF t] by simp
qed

section \<open>Windowed statistics\<close>




text \<open>
  C8 is not what the code does. With the window size 1, which the assertion accepts, the
  border is 0 and the slice \<^verbatim>\<open>[border:-border]\<close> is \<^verbatim>\<open>[0:0]\<close>: the windowed mean and
  the windowed standard deviation of any grid have no rows and no columns, and the filter
  of a grid of three rows and three columns fails when it combines them with its input.
\<close>

theorem window_size_one_empty_output:
  "result_shape (window_mean A img 1) = Inr (0, 0)
   \<and> result_shape (window_stdev A img 1) = Inr (0, 0)
   \<and> fst (enhanced_lee_filter exact flat_image 1 16) = Inl ValueError"
proof -
  obtain cu cmax where t: "lee_thresholds exact 16 = Inr (cu, cmax)"
    using lee_thresholds_ok [OF monotone_rounding_exact, of 16] by auto
  have "set_where (mmask flat_image) NaN (data flat_image) = data flat_image"
    by (simp add: flat_image_def full_def set_where_def)
  then have "fst (enhanced_lee_filter exact flat_image 1 16) = Inl ValueError"
    using enhanced_lee_filter_valid [OF _ t, of 1 flat_image] by (simp add: lee_body_k1)
  then show ?thesis using window_k1 [of A img] by simp
qed

section \<open>Enhanced Lee filter\<close>

text \<open>
  C1, as stated, fails. The claim is that every output pixel equals
  \<open>mu * w + original * (1 - w)\<close>. On the grid of three rows and three columns whose
  middle pixel is masked, filtered with window size 3 and 16 looks, the window mean of
  the middle pixel is NaN, so this expression is NaN, and the filter stores 0 for the
  pixel.
\<close>

theorem enhanced_lee_filter_masked_pixel_counterexample:
  "value_at (result_data (fst (enhanced_lee_filter exact masked_centre 3 16))) 1 1
     \<noteq> spec_lee_output exact masked_centre 3 16 1 1"
proof -
  have "value_at (result_data (fst (enhanced_lee_filter exact masked_centre 3 16))) 1 1
          = (case spec_lee_output exact masked_centre 3 16 1 1 of
               Inr NaN \<Rightarrow> Inr (Fin 0) | r \<Rightarrow> r)"
    by (rule lee_filter_pixel(1) [OF _ _ thresholds_exact_16])
       (simp_all add: masked_centre_def full_def)
  moreover have "spec_lee_output exact masked_centre 3 16 1 1 = Inr NaN"
    by (rule spec_lee_output_masked) (simp_all add: masked_centre_def full_def)
  ultimately show ?thesis by simp
qed

text \<open>
  C1, amended. For every masked grid, every odd window size from 3 on and every number of
  looks L whose thresholds \<open>cu = sqrt (1 / L)\<close> and \<open>cmax = sqrt (1 + 2 / L)\<close>, as the
  machine computes them, satisfy \<open>cu < cmax\<close> (as they do for every L from 1 on), the
  filter returns a grid of the shape of its input. With the window mean \<open>mu\<close>, the
  coefficient of variation \<open>ci = sigma / mu\<close> with its non-finite values replaced by 0,
  and the weight \<open>w\<close> equal to 1 where \<open>ci \<le> cu\<close>, to 0 where \<open>ci \<ge> cmax\<close> and to
  \<open>exp (- 1 * (ci - cu) / (cmax - ci))\<close> otherwise, every output pixel where
  \<open>mu * w + original * (1 - w)\<close> is not NaN equals it and is not masked, and every
  output pixel where it is NaN is masked and stored as 0.
\<close>

theorem enhanced_lee_filter_pixels:
  assumes "3 \<le> window_size" and "window_size mod 2 = 1"
    and "flt (spec_cu A n_looks) (spec_cmax A n_looks)"
    and "i < shape0 (data img)" and "j < shape1 (data img)"
  shows "value_at (result_data (fst (enhanced_lee_filter A img window_size n_looks))) i j
           = (case spec_lee_output A img window_size n_looks i j of
                Inr NaN \<Rightarrow> Inr (Fin 0) | r \<Rightarrow> r)
       \<and> value_at (result_mask (fst (enhanced_lee_filter A img window_size n_looks))) i j
           = Inr (spec_lee_output A img window_size n_looks i j = Inr NaN)
       \<and> (\<exists>v. spec_lee_output A img window_size n_looks i j = Inr v)
       \<and> result_shape (result_data (fst (enhanced_lee_filter A img window_size n_looks)))
           = Inr (shape0 (data img), shape1 (data img))"
  using lee_filter_pixel(1,2,3,4) [OF assms] by simp

theorem enhanced_lee_filter_pixels_witness:
  "(3 :: int) \<le> 3 \<and> (3 :: int) mod 2 = 1 \<and> flt (spec_cu exact 16) (spec_cmax exact 16)
   \<and> 1 < shape0 (data flat_image) \<and> 1 < shape1 (data flat_image)
   \<and> value_at (result_data (fst (enhanced_lee_filter exact flat_image 3 16))) 1 1 = Inr (Fin 1)
   \<and> value_at (result_mask (fst (enhanced_lee_filter exact flat_image 3 16))) 1 1 = Inr False"
  using enhanced_lee_filter_pixels [of 3 exact 16 1 flat_image 1]
    thresholds_exact_16 flat_image_output
  by (simp add: flat_image_def full_def)

text \<open>
  C10. A call of the filter that passes its assertion (an odd window size), with a number
  of looks from 1 on and a monotone rounding, leaves the caller's array with NaN at every
  masked position: the mask and the entries that are not masked are as before, so an
  array with a number at a masked position is not left unchanged.
\<close>

theorem enhanced_lee_filter_writes_input:
  assumes "window_size mod 2 = 1" and "1 \<le> n_looks" and "monotone_rounding A"
  shows "mmask (snd (enhanced_lee_filter A img window_size n_looks)) = mmask img
       \<and> shape0 (data (snd (enhanced_lee_filter A img window_size n_looks))) = shape0 (data img)
       \<and> shape1 (data (snd (enhanced_lee_filter A img window_size n_looks))) = shape1 (data img)
       \<and> (\<forall>i j. item (data (snd (enhanced_lee_filter A img window_size n_looks))) i j
                  = (if item (mmask img) i j then NaN else item (data img) i j))
       \<and> (\<forall>i j. item (mmask img) i j \<and> item (data img) i j \<noteq> NaN
              \<longrightarrow> snd (enhanced_lee_filter A img window_size n_looks) \<noteq> img)"
proof -
  have e: "snd (enhanced_lee_filter A img window_size n_looks)
             = img\<lparr>data := set_where (mmask img) NaN (data img)\<rparr>"
    using assms by (rule filter_effect)
  have ne: "snd (enhanced_lee_filter A img window_size n_looks) \<noteq> img"
    if "item (mmask img) i j" "item (data img) i j \<noteq> NaN" for i j
  proof
    assume "snd (enhanced_lee_filter A img window_size n_looks) = img"
    then have "item (data (img\<lparr>data := set_where (mmask img) NaN (data img)\<rparr>)) i j
                 = item (data img) i j"
      using e by simp
    then show False using that by simp
  qed
  have "\<forall>i j. item (mmask img) i j \<and> item (data img) i j \<noteq> NaN
              \<longrightarrow> snd (enhanced_lee_filter A img window_size n_looks) \<noteq> img"
    using ne by blast
  moreover have "mmask (snd (enhanced_lee_filter A img window_size n_looks)) = mmask img
       \<and> shape0 (data (snd (enhanced_lee_filter A img window_size n_looks))) = shape0 (data img)
       \<and> shape1 (data (snd (enhanced_lee_filter A img window_size n_looks))) = shape1 (data img)
       \<and> (\<forall>i j. item (data (snd (enhanced_lee_filter A img window_size n_looks))) i j
                  = (if item (mmask img) i j then NaN else item (data img) i j))"
    unfolding e by simp
  ultimately show ?thesis by simp
qed

theorem enhanced_lee_filter_writes_input_witness:
  "(3 :: int) mod 2 = 1 \<and> (1 :: int) \<le> 16 \<and> monotone_rounding exact
   \<and> item (data masked_centre) 1 1 = Fin 5
   \<and> item (data (snd (enhanced_lee_filter exact masked_centre 3 16))) 1 1 = NaN
   \<and> item (data (snd (enhanced_lee_filter exact masked_centre 3 16))) 0 0 = Fin 5
   \<and> snd (enhanced_lee_filter exact masked_centre 3 16) \<noteq> masked_centre"
  using enhanced_lee_filter_writes_input [of 3 16 exact masked_centre] monotone_rounding_exact
  by (simp add: masked_centre_def full_def)

section \<open>Grids and tiles without a valid pixel\<close>

text \<open>
  C7. With a monotone rounding, the filter of a grid whose every pixel is masked, with an
  odd window size from 3 on and a number of looks from 1 on, raises no error and returns
  a grid of the same shape whose every pixel is masked and stored as 0; and the biomass of
  a tile whose mask marks every pixel invalid, with or without the filter, is an array of
  the shape of the tile whose every pixel is masked and stored as 0. The tile is one of
  the two satellites whose file of digital numbers exists and has the shape of its mask.
\<close>

theorem all_masked_gives_zero:
  assumes "monotone_rounding A"
    and "3 \<le> window_size" and "window_size mod 2 = 1" and "1 \<le> n_looks"
    and "\<forall>i j. i < shape0 (data img) \<longrightarrow> j < shape1 (data img) \<longrightarrow> item (mmask img) i j"
    and "satellite t = ''ALOS-1'' \<or> satellite t = ''ALOS-2''"
    and "files e (HV_path t) = Some r"
    and "shape0 (band r) = shape0 (mask t)" and "shape1 (band r) = shape1 (mask t)"
    and "\<forall>i j. i < shape0 (mask t) \<longrightarrow> j < shape1 (mask t) \<longrightarrow> item (mask t) i j"
  shows "(\<exists>out. fst (enhanced_lee_filter A img window_size n_looks) = Inr out
            \<and> shape0 (data out) = shape0 (data img) \<and> shape1 (data out) = shape1 (data img)
            \<and> (\<forall>i j. i < shape0 (data img) \<longrightarrow> j < shape1 (data img)
                   \<longrightarrow> item (mmask out) i j \<and> item (data out) i j = Fin 0))
       \<and> (\<exists>agb. getAGB A e t lee_filter = Inr agb
            \<and> shape0 (data agb) = shape0 (mask t) \<and> shape1 (data agb) = shape1 (mask t)
            \<and> (\<forall>i j. i < shape0 (mask t) \<longrightarrow> j < shape1 (mask t)
                   \<longrightarrow> item (mmask agb) i j \<and> item (data agb) i j = Fin 0))"
proof -
  have "all_masked img (shape0 (data img)) (shape1 (data img))"
    using assms(5) by (simp add: all_masked_def)
  then have "\<exists>out. fst (enhanced_lee_filter A img window_size n_looks) = Inr out
      \<and> all_masked out (shape0 (data img)) (shape1 (data img))
      \<and> (\<forall>i j. i < shape0 (data img) \<longrightarrow> j < shape1 (data img) \<longrightarrow> item (data out) i j = Fin 0)"
    using assms(2,3,4,1) by (rule all_masked_filter)
  moreover have "\<exists>agb. getAGB A e t lee_filter = Inr agb
      \<and> all_masked agb (shape0 (mask t)) (shape1 (mask t))
      \<and> (\<forall>i j. i < shape0 (mask t) \<longrightarrow> j < shape1 (mask t) \<longrightarrow> item (data agb) i j = Fin 0)"
    using assms(1,6,7,8,9,10) by (rule getAGB_all_masked)
  ultimately show ?thesis unfolding all_masked_def by blast
qed

theorem all_masked_gives_zero_witness:
  "monotone_rounding exact \<and> (3 :: int) \<le> 3 \<and> (3 :: int) mod 2 = 1 \<and> (1 :: int) \<le> 16
   \<and> shape0 (data masked_image) = 3 \<and> shape1 (data masked_image) = 3
   \<and> item (mmask masked_image) 1 1
   \<and> (\<exists>out. fst (enhanced_lee_filter exact masked_image 3 16) = Inr out
          \<and> item (mmask out) 1 1 \<and> item (data out) 1 1 = Fin 0)
   \<and> (\<exists>t agb. ALOS_init masked_env (- 18) 33 2008 ''/data'' = Inr t
          \<and> files masked_env (HV_path t) = Some masked_raster
          \<and> satellite t = ''ALOS-1'' \<and> item (mask t) 1 1
          \<and> getAGB exact masked_env t True = Inr agb
          \<and> shape0 (data agb) = 3 \<and> shape1 (data agb) = 3
          \<and> item (mmask agb) 1 1 \<and> item (data agb) 1 1 = Fin 0)"
proof -
  obtain t where t: "ALOS_init masked_env (- 18) 33 2008 ''/data'' = Inr t"
    "satellite t = ''ALOS-1''" "mask t = map_array2 (\<lambda>v. v \<noteq> 255) (band masked_raster)"
    using ALOS_init_masked_env by blast
  have m: "shape0 (mask t) = 3" "shape1 (mask t) = 3" "\<And>i j. item (mask t) i j"
    by (simp_all add: t(3) masked_raster_def full_def)
  have f: "files masked_env (HV_path t) = Some masked_raster"
    by (simp add: masked_env_def)
  have i: "\<forall>i j. i < shape0 (data masked_image) \<longrightarrow> j < shape1 (data masked_image)
          \<longrightarrow> item (mmask masked_image) i j"
    by (simp add: masked_image_def full_def)
  have b: "shape0 (band masked_raster) = shape0 (mask t)"
    "shape1 (band masked_raster) = shape1 (mask t)"
    by (simp_all add: m masked_raster_def full_def)
  have "(\<exists>out. fst (enhanced_lee_filter exact masked_image 3 16) = Inr out
            \<and> shape0 (data out) = shape0 (data masked_image)
            \<and> shape1 (data out) = shape1 (data masked_image)
            \<and> (\<forall>i j. i < shape0 (data masked_image) \<longrightarrow> j < shape1 (data masked_image)
                   \<longrightarrow> item (mmask out) i j \<and> item (data out) i j = Fin 0))
       \<and> (\<exists>agb. getAGB exact masked_env t True = Inr agb
            \<and> shape0 (data agb) = shape0 (mask t) \<and> shape1 (data agb) = shape1 (mask t)
            \<and> (\<forall>i j. i < shape0 (mask t) \<longrightarrow> j < shape1 (mask t)
                   \<longrightarrow> item (mmask agb) i j \<and> item (data agb) i j = Fin 0))"
    by (rule all_masked_gives_zero [OF monotone_rounding_exact _ _ _ i _ f b])
       (simp_all add: t(2) m)
  then show ?thesis
    using t(1,2) f m monotone_rounding_exact
    by (auto simp: masked_image_def full_def)
qed

section \<open>Rasterization of a shapefile\<close>

text \<open>
  C5 is not what the code does. The canvas is created with the size
  \<^verbatim>\<open>(ySize + 2 * buffer_px, xSize + 2 * buffer_px)\<close>, which the imaging library reads as
  width and height, so that the mask returned has \<open>xSize\<close> rows and \<open>ySize\<close> columns
  (lemma \<open>rasterizeShapefile_size\<close>), where \<open>xSize\<close> is the number of columns of the
  arrays of the tile and \<open>ySize\<close> the number of their rows. On the tile of a raster file
  of three rows and two columns, and a shapefile without shapes, the mask of the tile has
  three rows and two columns and the rasterized mask has two rows and three columns.
\<close>

theorem rasterizeShapefile_mask_transposed:
  assumes "rnd A 0 = Fin 0"
  shows "\<exists>t m. ALOS_init tall_env (- 18) 33 2008 ''/data'' = Inr t
           \<and> rasterizeShapefile A pil t (plain_shapefile []) (Fin 0) None None = Inr m
           \<and> shape0 (mask t) = 3 \<and> shape1 (mask t) = 2
           \<and> shape0 m = 2 \<and> shape1 m = 3"
proof -
  obtain t where t: "ALOS_init tall_env (- 18) 33 2008 ''/data'' = Inr t"
    "xSize t = 2" "ySize t = 3" "geo_t t = unit_geo_t"
    "mask t = map_array2 (\<lambda>v. v \<noteq> 255) (band tall_raster)"
    using ALOS_init_tall_env by blast
  have g: "gt1 (geo_t t) = Fin 1" by (simp add: t(4) unit_geo_t_def)
  have "rasterizeShapefile A pil t (plain_shapefile []) (Fin 0) None None
          = Inr (full 2 3 False)"
    using rasterize_empty [OF assms g, of pil] by (simp add: t(2,3))
  moreover have "shape0 (mask t) = 3 \<and> shape1 (mask t) = 2"
    by (simp add: t(5) map_array2_def tall_raster_def full_def)
  ultimately show ?thesis using t(1) by (simp add: full_def)
qed

theorem rasterizeShapefile_mask_transposed_witness:
  "rnd exact 0 = Fin 0
   \<and> (\<exists>t m. ALOS_init tall_env (- 18) 33 2008 ''/data'' = Inr t
          \<and> rasterizeShapefile exact vertex_draw t (plain_shapefile []) (Fin 0) None None = Inr m
          \<and> shape0 (mask t) = 3 \<and> shape1 (mask t) = 2
          \<and> shape0 m = 2 \<and> shape1 m = 3)"
  using rasterizeShapefile_mask_transposed [of exact vertex_draw] by (simp add: exact_def)

text \<open>
  C6 is not what the code does. A shape is skipped when the lower edge of its bounding
  box lies above \<^verbatim>\<open>geo_t[3] - buffer_size\<close>, and when its upper edge lies below
  \<^verbatim>\<open>geo_t[3] + geo_t[5] * xSize + buffer_size\<close>: the buffer moves both limits into the
  tile, where it moves the limits in x out of it. On a tile of three rows and three
  columns with pixels of size 1 and its origin at (0, 0), take the line from (1/2, -1/2)
  to (5/2, -1/2), through the top row of pixels, and a drawer that marks the first vertex
  of a line. Without buffer the line is drawn and the pixel of row 0 and column 0 is True;
  with the buffer 1 the line is skipped, since -1/2 is greater than 0 - 1, and the same
  pixel is False. The arithmetic is any that computes the ten numbers of the two calls,
  all of them multiples of 1/2, without rounding.
\<close>

theorem rasterizeShapefile_buffer_loses_pixel:
  assumes "exact_on A [0, 1 / 2, - (1 / 2), 5 / 2, 3, - 3, 1, - 1, 4, - 2]"
    and "geo_t t = unit_geo_t" and "xSize t = 3" and "ySize t = 3"
    and "shape0 (draw_line pil [(0, 0), (2, 0)] 1 (full 3 3 0)) = 3"
    and "shape1 (draw_line pil [(0, 0), (2, 0)] 1 (full 3 3 0)) = 3"
    and "item (draw_line pil [(0, 0), (2, 0)] 1 (full 3 3 0)) 0 0 = 1"
  shows "\<exists>m0 m1.
           rasterizeShapefile A pil t (plain_shapefile [line_shape]) (Fin 0) None None = Inr m0
         \<and> rasterizeShapefile A pil t (plain_shapefile [line_shape]) (Fin 1) None None = Inr m1
         \<and> shape0 m0 = 3 \<and> shape1 m0 = 3 \<and> shape0 m1 = 3 \<and> shape1 m1 = 3
         \<and> item m0 0 0 \<and> \<not> item m1 0 0"
proof -
  have a: "exact_on A [0, 1 / 2, - (1 / 2), 5 / 2, 3, - 3]"
    and b: "exact_on A [1, - 1, 3, - 3, 4, - 2]"
    using assms(1) by (simp_all add: exact_on_simps)
  let ?d = "draw_line pil [(0, 0), (2, 0)] 1 (full 3 3 0)"
  have "item (map_array2 (\<lambda>v. v > 0)
          (slice2 ?d 0 (int (shape0 ?d)) 0 (int (shape1 ?d)))) 0 0"
    and "shape0 (map_array2 (\<lambda>v :: int. v > 0)
          (slice2 ?d 0 (int (shape0 ?d)) 0 (int (shape1 ?d)))) = 3"
    and "shape1 (map_array2 (\<lambda>v :: int. v > 0)
          (slice2 ?d 0 (int (shape0 ?d)) 0 (int (shape1 ?d)))) = 3"
    by (simp_all add: assms(5,6,7) map_array2_def slice2_def slice_index_def)
  then show ?thesis
    using rasterize_line_unbuffered [OF a assms(2,3,4), of pil]
      rasterize_line_buffered [OF b assms(2,3,4), of pil]
    by (simp add: full_def)
qed

theorem rasterizeShapefile_buffer_loses_pixel_witness:
  "exact_on exact [0, 1 / 2, - (1 / 2), 5 / 2, 3, - 3, 1, - 1, 4, - 2]
   \<and> shape0 (draw_line vertex_draw [(0, 0), (2, 0)] 1 (full 3 3 0)) = 3
   \<and> shape1 (draw_line vertex_draw [(0, 0), (2, 0)] 1 (full 3 3 0)) = 3
   \<and> item (draw_line vertex_draw [(0, 0), (2, 0)] 1 (full 3 3 0)) 0 0 = 1
   \<and> (\<exists>t m0 m1. ALOS_init masked_env (- 18) 33 2008 ''/data'' = Inr t
          \<and> geo_t t = unit_geo_t \<and> xSize t = 3 \<and> ySize t = 3
          \<and> rasterizeShapefile exact vertex_draw t (plain_shapefile [line_shape]) (Fin 0)
                None None = Inr m0
          \<and> rasterizeShapefile exact vertex_draw t (plain_shapefile [line_shape]) (Fin 1)
                None None = Inr m1
          \<and> item m0 0 0 \<and> \<not> item m1 0 0)"
proof -
  obtain t where t: "ALOS_init masked_env (- 18) 33 2008 ''/data'' = Inr t"
    "xSize t = 3" "ySize t = 3" "geo_t t = unit_geo_t"
    using ALOS_init_masked_env_geo by blast
  have e: "exact_on exact [0, 1 / 2, - (1 / 2), 5 / 2, 3, - 3, 1, - 1, 4, - 2]"
    by (simp add: exact_on_simps exact_def)
  have d: "shape0 (draw_line vertex_draw [(0, 0), (2, 0)] 1 (full 3 3 0)) = 3"
    "shape1 (draw_line vertex_draw [(0, 0), (2, 0)] 1 (full 3 3 0)) = 3"
    "item (draw_line vertex_draw [(0, 0), (2, 0)] 1 (full 3 3 0)) 0 0 = 1"
    by (simp_all add: vertex_draw_def draw_vertices_def full_def)
  show ?thesis
    using rasterizeShapefile_buffer_loses_pixel [OF e t(4,2,3) d] e d t by auto
qed


end
